theory Spec2Isabelle
  imports Main
begin

section \<open>The connection supervisor and event router of src/core/bot.js\<close>

text \<open>
  The class \<open>HyperWaBot\<close> is embedded as a record of its fields plus the list of the
  calls it has made on its collaborators (the transport library, the bridge, the
  configuration, the logger), in the order it made them. Every \<open>await\<close> is run to
  completion before the next statement, as in the source; a call on a collaborator
  either returns or throws, which an oracle of the environment decides from the calls
  made so far, so that a theorem about every environment is a theorem about every
  behaviour of the collaborators.
\<close>

subsection \<open>Values\<close>

type_synonym ref = nat
type_synonym jid = string
type_synonym payload = nat

datatype 'a js = Undefined | Null | Val 'a

datatype level = LInfo | LDebug | LError

datatype call =
    ConnectDb
  | NewMessageHandler
  | NewModuleLoader
  | ConfigGet string
  | UseMongoAuthState
  | UseMultiFileAuthState string
  | FetchLatestBaileysVersion
  | MakeInMemoryStore
  | MakeCacheableSignalKeyStore
  | MakeWASocket
  | StoreBind ref
  | EvProcess ref
  | SaveCreds
  | HandleMessages payload
  | ProfilePictureUrl ref jid
  | HandleCallNotification payload
  | SendQRCode string
  | ImportQrcodeTerminal
  | QRCodeGenerate string
  | Delay nat
  | SendToAllUsers string
  | LoadModules
  | NewTelegramBridge
  | BridgeInitialize
  | SetupWhatsAppHandlers
  | SyncContacts
  | UpdateTopicNames
  | SendStartMessage
  | SockSendMessage ref jid
  | BridgeShutdown
  | SockEnd ref
  | Logger level string

datatype outcome = Returned | Thrown

type_synonym entry = "call \<times> outcome"

datatype exn = Error string | TypeError | Raised call

text \<open>
  The in-memory store of the transport library. Its \<open>contacts\<close>, its \<open>messages\<close> and every
  message dictionary in \<open>messages\<close> are plain JavaScript objects: reading a property finds
  the object's own property of that name, or else the member of \<open>Object.prototype\<close> of
  that name, or else undefined. \<open>makeInMemoryStore\<close> returns a store whose objects have no
  own property. \<open>loadMessage(jid, id)\<close> is \<open>messages[jid]?.get(id)\<close>: for a \<open>jid\<close> that names
  no own property and a member of \<open>Object.prototype\<close>, that member has no \<open>get\<close> and the call
  is a \<open>TypeError\<close>.
\<close>

record wamessage =
  message :: "string option"

record memstore =
  messages :: "jid \<rightharpoonup> (string \<rightharpoonup> wamessage)"
  contacts :: "jid \<rightharpoonup> string"

definition makeInMemoryStore :: memstore where
  "makeInMemoryStore = \<lparr>messages = Map.empty, contacts = Map.empty\<rparr>"

definition objectPrototypeMembers :: "string list" where
  "objectPrototypeMembers =
     [''constructor'', ''__defineGetter__'', ''__defineSetter__'', ''hasOwnProperty'',
      ''__lookupGetter__'', ''__lookupSetter__'', ''isPrototypeOf'',
      ''propertyIsEnumerable'', ''toString'', ''valueOf'', ''__proto__'',
      ''toLocaleString'']"

datatype 'a property = Own 'a | Inherited string | Missing

definition readProperty :: "(string \<rightharpoonup> 'a) \<Rightarrow> string \<Rightarrow> 'a property" where
  "readProperty obj k =
     (case obj k of
        Some v \<Rightarrow> Own v
      | None \<Rightarrow> if k \<in> set objectPrototypeMembers then Inherited k else Missing)"

definition loadMessage :: "memstore \<Rightarrow> jid \<Rightarrow> string \<Rightarrow> exn + wamessage property" where
  "loadMessage st j i =
     (case readProperty (messages st) j of
        Own dict \<Rightarrow> Inr (readProperty dict i)
      | Inherited m \<Rightarrow> Inl TypeError
      | Missing \<Rightarrow> Inr Missing)"

record messageKey =
  remoteJid :: jid
  msgId :: string

subsection \<open>The environment\<close>

text \<open>
  \<open>loggedOut\<close> is \<open>DisconnectReason.loggedOut\<close> of the transport library;
  \<open>useMongoAuth\<close> and \<open>telegram_enabled\<close> are what \<open>config.get\<close> returns for
  \<open>auth.useMongoAuth\<close> and \<open>telegram.enabled\<close>; \<open>throws tr c\<close> says whether the call
  \<open>c\<close>, made after the calls \<open>tr\<close>, throws; \<open>pictureUrl\<close> is what a returning
  \<open>profilePictureUrl\<close> resolves to.
\<close>

record env =
  loggedOut :: int
  useMongoAuth :: bool
  telegram_enabled :: bool
  throws :: "entry list \<Rightarrow> call \<Rightarrow> bool"
  pictureUrl :: "entry list \<Rightarrow> jid \<Rightarrow> string option"

subsection \<open>The bot\<close>

record bot =
  sock :: "ref option"
  store :: "memstore option"
  messageHandler :: "ref option"
  moduleLoader :: "ref option"
  telegramBridge :: "ref option"
  db :: "ref option"
  isInitialized :: bool
  retryCount :: nat
  maxRetries :: nat
  trace :: "entry list"

definition constructor :: bot where
  "constructor = \<lparr>sock = None, store = None, messageHandler = None, moduleLoader = None,
     telegramBridge = None, db = None, isInitialized = False, retryCount = 0,
     maxRetries = 5, trace = []\<rparr>"

subsection \<open>Statements\<close>

type_synonym 'a act = "bot \<Rightarrow> (exn + 'a) \<times> bot"

definition ret :: "'a \<Rightarrow> 'a act" where
  "ret x s = (Inr x, s)"

definition throw :: "exn \<Rightarrow> 'a act" where
  "throw e s = (Inl e, s)"

definition bindAct :: "'a act \<Rightarrow> ('a \<Rightarrow> 'b act) \<Rightarrow> 'b act" where
  "bindAct m f s = (case m s of (Inl e, s') \<Rightarrow> (Inl e, s') | (Inr x, s') \<Rightarrow> f x s')"

definition thenAct :: "unit act \<Rightarrow> 'b act \<Rightarrow> 'b act" where
  "thenAct m n = bindAct m (\<lambda>_. n)"

fun block :: "unit act list \<Rightarrow> unit act" where
  "block [] = ret ()"
| "block (m # ms) = thenAct m (block ms)"

definition tryCatch :: "'a act \<Rightarrow> (exn \<Rightarrow> 'a act) \<Rightarrow> 'a act" where
  "tryCatch m h s = (case m s of (Inl e, s') \<Rightarrow> h e s' | (Inr x, s') \<Rightarrow> (Inr x, s'))"

definition whenAct :: "bool \<Rightarrow> unit act \<Rightarrow> unit act" where
  "whenAct b m = (if b then m else ret ())"

definition ifAct :: "(bot \<Rightarrow> bool) \<Rightarrow> 'a act \<Rightarrow> 'a act \<Rightarrow> 'a act" where
  "ifAct c m n s = (if c s then m s else n s)"

definition reads :: "(bot \<Rightarrow> 'a) \<Rightarrow> 'a act" where
  "reads f s = (Inr (f s), s)"

definition assign :: "(bot \<Rightarrow> bot) \<Rightarrow> unit act" where
  "assign f s = (Inr (), f s)"

definition record_call :: "call \<Rightarrow> outcome \<Rightarrow> bot \<Rightarrow> bot" where
  "record_call c r s = s\<lparr>trace := trace s @ [(c, r)]\<rparr>"

text \<open>A call on a collaborator that may throw.\<close>

definition ext :: "env \<Rightarrow> call \<Rightarrow> unit act" where
  "ext env c s =
     (if throws env (trace s) c then (Inl (Raised c), record_call c Thrown s)
      else (Inr (), record_call c Returned s))"

text \<open>A constructor call: the new object is named by the number of calls before it.\<close>

definition extNew :: "env \<Rightarrow> call \<Rightarrow> ref act" where
  "extNew env c s =
     (if throws env (trace s) c then (Inl (Raised c), record_call c Thrown s)
      else (Inr (length (trace s)), record_call c Returned s))"

text \<open>A call that does not throw: the logger, and the timer \<open>delay\<close>.\<close>

definition perform :: "call \<Rightarrow> unit act" where
  "perform c s = (Inr (), record_call c Returned s)"

text \<open>Log lines are recorded by their template, without the interpolated values.\<close>

definition logger :: "level \<Rightarrow> string \<Rightarrow> unit act" where
  "logger l m = perform (Logger l m)"

definition truthy :: "string option \<Rightarrow> bool" where
  "truthy v = (case v of None \<Rightarrow> False | Some x \<Rightarrow> x \<noteq> [])"

subsection \<open>startConnection and setupEventHandlers\<close>

text \<open>
  \<open>this.sock.ev.process(callback)\<close>; the callback is \<open>processEvents\<close> below. In
  \<open>startConnection\<close> the silent \<open>pino\<close> loggers and \<open>this.getMessage.bind(this)\<close>, which
  are built while the arguments of \<open>makeInMemoryStore\<close> and \<open>makeWASocket\<close> are evaluated,
  are left out; every other call is there, in the order of evaluation. A property read on
  \<open>this.sock\<close>, \<open>this.store\<close>, \<open>this.moduleLoader\<close> or \<open>this.messageHandler\<close> while the
  field is null is a \<open>TypeError\<close>.
\<close>

definition setupEventHandlers :: "env \<Rightarrow> unit act" where
  "setupEventHandlers env =
     bindAct (reads sock)
       (\<lambda>v. case v of None \<Rightarrow> throw TypeError | Some h \<Rightarrow> ext env (EvProcess h))"

definition startConnection :: "env \<Rightarrow> unit act" where
  "startConnection env =
     tryCatch
       (block [
          ext env (ConfigGet ''auth.useMongoAuth''),
          ext env (ConfigGet ''auth.clearAuthOnStart''),
          (if useMongoAuth env
           then block [logger LInfo ''Using MongoDB authentication state'',
                       ext env UseMongoAuthState]
           else block [logger LInfo ''Using file-based authentication state'',
                       ext env (UseMultiFileAuthState ''auth_info'')]),
          ext env FetchLatestBaileysVersion,
          logger LInfo ''Using WA v, isLatest: '',
          ext env MakeInMemoryStore,
          assign (\<lambda>s. s\<lparr>store := Some makeInMemoryStore\<rparr>),
          ext env MakeCacheableSignalKeyStore,
          ext env (ConfigGet ''telegram.enabled''),
          bindAct (extNew env MakeWASocket) (\<lambda>h. assign (\<lambda>s. s\<lparr>sock := Some h\<rparr>)),
          ifAct (\<lambda>s. store s = None) (throw TypeError)
            (bindAct (reads sock)
               (\<lambda>v. case v of None \<Rightarrow> throw TypeError | Some h \<Rightarrow> ext env (StoreBind h))),
          setupEventHandlers env,
          logger LInfo ''WhatsApp connection started''])
       (\<lambda>e. thenAct (logger LError ''Failed to start connection:'') (throw e))"

subsection \<open>handleConnectionUpdate\<close>

text \<open>
  The handler is four \<open>if\<close> statements in a row, on \<open>qr\<close>, on \<open>connection === 'close'\<close>, on
  \<open>connection === 'open'\<close> and on \<open>connection === 'connecting'\<close>; the first three are
  \<open>onQr\<close>, \<open>onClose\<close> and \<open>onOpen\<close> here. The constant \<open>statusCode\<close> of the close branch
  is computed and never read, and is left out. \<open>Math.pow(2, n)\<close> is exact on the naturals
  up to the cap of \<open>Math.min\<close>, so that \<open>retryDelay\<close> is computed on \<open>nat\<close>.
\<close>

datatype connection = Connecting | Open | Close

text \<open>
  \<open>lastDisconnect?.error\<close>: absent, an instance of \<open>Boom\<close> with its
  \<open>output?.statusCode\<close>, or some other error object.
\<close>

datatype js_error = Boom "int option" | OtherError

record lastDisconnect_t =
  err :: "js_error option"

record connUpdate =
  connection :: "connection option"
  lastDisconnect :: "lastDisconnect_t option"
  qr :: "string option"

definition disconnectError :: "connUpdate \<Rightarrow> js_error option" where
  "disconnectError u = (case lastDisconnect u of None \<Rightarrow> None | Some ld \<Rightarrow> err ld)"

definition shouldReconnect :: "env \<Rightarrow> connUpdate \<Rightarrow> bool" where
  "shouldReconnect env u =
     (case disconnectError u of
        Some (Boom sc) \<Rightarrow> sc \<noteq> Some (loggedOut env)
      | _ \<Rightarrow> True)"

definition retryDelay :: "nat \<Rightarrow> nat" where
  "retryDelay n = min (1000 * 2 ^ n) 30000"

definition onQr :: "env \<Rightarrow> connUpdate \<Rightarrow> unit act" where
  "onQr env u =
     (case qr u of
        None \<Rightarrow> ret ()
      | Some q \<Rightarrow>
          whenAct (q \<noteq> [])
            (block [
               logger LInfo ''QR Code received'',
               ifAct (\<lambda>s. telegramBridge s \<noteq> None)
                 (ext env (SendQRCode q))
                 (block [ext env ImportQrcodeTerminal, ext env (QRCodeGenerate q)])]))"

definition onClose :: "env \<Rightarrow> connUpdate \<Rightarrow> unit act" where
  "onClose env u =
     whenAct (connection u = Some Close)
       (block [
          logger LInfo ''Connection closed due to , reconnecting: '',
          (if shouldReconnect env u
           then ifAct (\<lambda>s. retryCount s < maxRetries s)
                  (block [
                     assign (\<lambda>s. s\<lparr>retryCount := retryCount s + 1\<rparr>),
                     bindAct (reads retryCount)
                       (\<lambda>n. block [
                              logger LInfo ''Reconnecting in  seconds (attempt /)...'',
                              perform (Delay (retryDelay n))]),
                     startConnection env])
                  (block [
                     logger LError ''Max reconnection attempts reached. Please restart the bot.'',
                     ifAct (\<lambda>s. telegramBridge s \<noteq> None)
                       (ext env (SendToAllUsers
                          ''Connection lost. Max reconnection attempts reached. Please restart the bot.''))
                       (ret ())])
           else block [
                  logger LInfo ''Connection closed permanently. You are logged out.'',
                  ifAct (\<lambda>s. telegramBridge s \<noteq> None)
                    (ext env (SendToAllUsers
                       ''WhatsApp connection closed. You have been logged out.''))
                    (ret ())])])"

definition onOpen :: "env \<Rightarrow> connUpdate \<Rightarrow> unit act" where
  "onOpen env u =
     whenAct (connection u = Some Open)
       (block [
          logger LInfo ''WhatsApp connection opened successfully'',
          ifAct (\<lambda>s. sock s = None) (throw TypeError)
            (logger LInfo ''Connected as:  ()''),
          assign (\<lambda>s. s\<lparr>retryCount := 0\<rparr>),
          ifAct (\<lambda>s. moduleLoader s = None) (throw TypeError) (ext env LoadModules),
          ext env (ConfigGet ''telegram.enabled''),
          whenAct (telegram_enabled env)
            (block [
               ifAct (\<lambda>s. telegramBridge s = None)
                 (block [
                    bindAct (extNew env NewTelegramBridge)
                      (\<lambda>b. assign (\<lambda>s. s\<lparr>telegramBridge := Some b\<rparr>)),
                    ext env BridgeInitialize,
                    ext env SetupWhatsAppHandlers])
                 (ret ()),
               ext env SyncContacts,
               ext env UpdateTopicNames,
               ext env SendStartMessage])])"

definition handleConnectionUpdate :: "env \<Rightarrow> connUpdate \<Rightarrow> unit act" where
  "handleConnectionUpdate env u =
     block [
       onQr env u,
       onClose env u,
       onOpen env u,
       whenAct (connection u = Some Connecting) (logger LInfo ''Connecting to WhatsApp...'')]"

subsection \<open>The event router\<close>

record contactUpdate =
  cid :: jid
  imgUrl :: "string js"

record batch =
  connection_update :: "connUpdate option"
  creds_update :: "payload option"
  messages_upsert :: "payload option"
  messages_update :: "payload list option"
  message_receipt_update :: "payload option"
  messages_reaction :: "payload option"
  presence_update :: "payload option"
  chats_update :: "payload list option"
  chats_delete :: "payload list option"
  contacts_update :: "contactUpdate list option"
  contacts_upsert :: "payload list option"
  call_ev :: "payload list option"
  messaging_history_set :: "payload option"
  labels_association :: "payload option"
  labels_edit :: "payload option"

text \<open>
  \<open>await this.sock.profilePictureUrl(contact.id).catch(() => null)\<close>: a rejection is
  turned into null.
\<close>

definition lookupPicture :: "env \<Rightarrow> jid \<Rightarrow> (string option) act" where
  "lookupPicture env j =
     bindAct (reads sock)
       (\<lambda>v. case v of
              None \<Rightarrow> throw TypeError
            | Some h \<Rightarrow>
                tryCatch
                  (bindAct (reads trace)
                     (\<lambda>tr. thenAct (ext env (ProfilePictureUrl h j))
                             (ret (pictureUrl env tr j))))
                  (\<lambda>e. ret None))"

definition onContact :: "env \<Rightarrow> contactUpdate \<Rightarrow> unit act" where
  "onContact env c =
     (case imgUrl c of
        Undefined \<Rightarrow> ret ()
      | Null \<Rightarrow> ret ()
      | Val _ \<Rightarrow>
          bindAct (lookupPicture env (cid c))
            (\<lambda>newUrl. whenAct (truthy newUrl)
               (logger LDebug ''Contact  has a new profile pic: '')))"

fun forEach :: "('a \<Rightarrow> unit act) \<Rightarrow> 'a list \<Rightarrow> unit act" where
  "forEach f [] = ret ()"
| "forEach f (x # xs) = thenAct (f x) (forEach f xs)"

definition present :: "'a option \<Rightarrow> bool" where
  "present v = (v \<noteq> None)"

text \<open>The body of the callback given to \<open>ev.process\<close>: one statement for each kind, in order.\<close>

definition dispatch :: "env \<Rightarrow> batch \<Rightarrow> unit act list" where
  "dispatch env events =
  [
    (case connection_update events of
       None \<Rightarrow> ret ()
     | Some u \<Rightarrow> handleConnectionUpdate env u),
    whenAct (present (creds_update events)) (ext env SaveCreds),
    (case messages_upsert events of
       None \<Rightarrow> ret ()
     | Some m \<Rightarrow> ifAct (\<lambda>s. messageHandler s = None) (throw TypeError)
                   (ext env (HandleMessages m))),
    whenAct (present (messages_update events)) (logger LDebug ''Messages updated:''),
    whenAct (present (message_receipt_update events))
      (logger LDebug ''Message receipt updated''),
    whenAct (present (messages_reaction events))
      (logger LDebug ''Message reaction received''),
    whenAct (present (presence_update events)) (logger LDebug ''Presence update:''),
    whenAct (present (chats_update events)) (logger LDebug ''Chats updated:''),
    whenAct (present (chats_delete events)) (logger LDebug ''Chats deleted:''),
    (case contacts_update events of
       None \<Rightarrow> ret ()
     | Some cs \<Rightarrow> forEach (onContact env) cs),
    whenAct (present (contacts_upsert events)) (logger LDebug ''New contacts:''),
    (case call_ev events of
       None \<Rightarrow> ret ()
     | Some cs \<Rightarrow>
         block [
           logger LInfo ''Call event received:'',
           ifAct (\<lambda>s. telegramBridge s \<noteq> None)
             (forEach (\<lambda>c. ext env (HandleCallNotification c)) cs)
             (ret ())]),
    whenAct (present (messaging_history_set events))
      (logger LInfo ''Received  chats,  contacts,  msgs (latest: , progress: %)''),
    whenAct (present (labels_association events)) (logger LDebug ''Label association:''),
    whenAct (present (labels_edit events)) (logger LDebug ''Label edited:'')]"

definition processEvents :: "env \<Rightarrow> batch \<Rightarrow> unit act" where
  "processEvents env events = block (dispatch env events)"

subsection \<open>initialize, getMessage, sendMessage, getContactInfo, shutdown\<close>

definition initialize :: "env \<Rightarrow> unit act" where
  "initialize env =
     tryCatch
       (block [
          logger LInfo ''Initializing HyperWa Bot...'',
          bindAct (extNew env ConnectDb) (\<lambda>d. assign (\<lambda>s. s\<lparr>db := Some d\<rparr>)),
          logger LInfo ''Database connected'',
          bindAct (extNew env NewMessageHandler)
            (\<lambda>m. assign (\<lambda>s. s\<lparr>messageHandler := Some m\<rparr>)),
          bindAct (extNew env NewModuleLoader)
            (\<lambda>m. assign (\<lambda>s. s\<lparr>moduleLoader := Some m\<rparr>)),
          startConnection env,
          assign (\<lambda>s. s\<lparr>isInitialized := True\<rparr>),
          logger LInfo ''HyperWa Bot initialization complete''])
       (\<lambda>e. thenAct (logger LError ''Failed to initialize bot:'') (throw e))"

text \<open>
  \<open>getMessage\<close> awaits \<open>store.loadMessage\<close>, so that an error of \<open>loadMessage\<close> is an error
  of \<open>getMessage\<close>; \<open>msg?.message || undefined\<close>, where \<open>None\<close> is undefined, and a member of
  \<open>Object.prototype\<close> has no property \<open>message\<close>. The \<open>content\<close> and \<open>options\<close> of
  \<open>sendMessage\<close> are passed on unchanged and are not modelled, nor is the value it
  returns. \<open>getContactInfo\<close> returns null, or what reading \<open>this.store.contacts[jid]\<close>
  gives; \<open>!jid\<close> is the empty string.
\<close>

definition getMessage :: "bot \<Rightarrow> messageKey \<Rightarrow> exn + string option" where
  "getMessage s key =
     (case store s of
        Some st \<Rightarrow>
          (case loadMessage st (remoteJid key) (msgId key) of
             Inl e \<Rightarrow> Inl e
           | Inr (Own msg) \<Rightarrow> Inr (if truthy (message msg) then message msg else None)
           | Inr (Inherited m) \<Rightarrow> Inr None
           | Inr Missing \<Rightarrow> Inr None)
      | None \<Rightarrow> Inr None)"

definition sendMessage :: "env \<Rightarrow> jid \<Rightarrow> unit act" where
  "sendMessage env j =
     tryCatch
       (bindAct (reads sock)
          (\<lambda>v. case v of
                 None \<Rightarrow> throw (Error ''WhatsApp socket not initialized'')
               | Some h \<Rightarrow> ext env (SockSendMessage h j)))
       (\<lambda>e. thenAct (logger LError ''Failed to send message:'') (throw e))"

definition getContactInfo :: "bot \<Rightarrow> jid \<Rightarrow> string property js" where
  "getContactInfo s j =
     (if j = [] then Null
      else case store s of
             None \<Rightarrow> Null
           | Some st \<Rightarrow>
               (case readProperty (contacts st) j of
                  Missing \<Rightarrow> Undefined
                | p \<Rightarrow> Val p))"

definition shutdown :: "env \<Rightarrow> unit act" where
  "shutdown env =
     thenAct (logger LInfo ''Shutting down HyperWa Bot...'')
       (tryCatch
          (block [
             ifAct (\<lambda>s. telegramBridge s \<noteq> None) (ext env BridgeShutdown) (ret ()),
             bindAct (reads sock)
               (\<lambda>v. case v of None \<Rightarrow> ret () | Some h \<Rightarrow> ext env (SockEnd h)),
             logger LInfo ''HyperWa Bot shutdown complete''])
          (\<lambda>e. logger LError ''Error during shutdown:''))"

subsection \<open>The disconnect cause, in the words of the specification\<close>

text \<open>
  An explicit logout: \<open>lastDisconnect\<close> carries a \<open>Boom\<close> error whose status code is
  the logged-out code. To be compared with \<open>shouldReconnect\<close>, which is the source's test.
\<close>

definition explicitLogout :: "env \<Rightarrow> connUpdate \<Rightarrow> bool" where
  "explicitLogout env u =
     (case lastDisconnect u of
        None \<Rightarrow> False
      | Some ld \<Rightarrow> (case err ld of Some (Boom (Some c)) \<Rightarrow> c = loggedOut env | _ \<Rightarrow> False))"

subsection \<open>Runs\<close>

text \<open>
  The transport delivers the updates one after another; an error that leaves the handler
  goes back to the transport, and the bot keeps the state it had reached.
\<close>

fun deliverAll :: "env \<Rightarrow> connUpdate list \<Rightarrow> bot \<Rightarrow> bot" where
  "deliverAll env [] s = s"
| "deliverAll env (u # us) s = deliverAll env us (snd (handleConnectionUpdate env u s))"

datatype op = OpInitialize | OpProcess batch | OpSendMessage jid | OpShutdown

fun step :: "env \<Rightarrow> op \<Rightarrow> bot \<Rightarrow> bot" where
  "step env OpInitialize s = snd (initialize env s)"
| "step env (OpProcess events) s = snd (processEvents env events s)"
| "step env (OpSendMessage j) s = snd (sendMessage env j s)"
| "step env OpShutdown s = snd (shutdown env s)"

fun run :: "env \<Rightarrow> op list \<Rightarrow> bot \<Rightarrow> bot" where
  "run env [] s = s"
| "run env (x # xs) s = run env xs (step env x s)"

subsection \<open>What a trace shows\<close>

text \<open>
  Every call of \<open>startConnection\<close> begins by reading \<open>auth.useMongoAuth\<close>, and nothing
  else reads it: the connection attempts of a trace are these reads.
\<close>

definition isStart :: "entry \<Rightarrow> bool" where
  "isStart e = (fst e = ConfigGet ''auth.useMongoAuth'')"

definition attempts :: "entry list \<Rightarrow> nat" where
  "attempts tr = length (filter isStart tr)"

definition delayOf :: "entry \<Rightarrow> nat option" where
  "delayOf e = (case fst e of Delay d \<Rightarrow> Some d | _ \<Rightarrow> None)"

definition delays :: "entry list \<Rightarrow> nat list" where
  "delays tr = List.map_filter delayOf tr"

definition isNotify :: "entry \<Rightarrow> bool" where
  "isNotify e = (case fst e of SendToAllUsers m \<Rightarrow> True | _ \<Rightarrow> False)"

definition notifications :: "entry list \<Rightarrow> nat" where
  "notifications tr = length (filter isNotify tr)"

definition bridgesMade :: "entry list \<Rightarrow> nat" where
  "bridgesMade tr = length (filter (\<lambda>e. e = (NewTelegramBridge, Returned)) tr)"

definition bridgeInits :: "entry list \<Rightarrow> nat" where
  "bridgeInits tr = length (filter (\<lambda>e. fst e = BridgeInitialize) tr)"

definition calls :: "entry list \<Rightarrow> call list" where
  "calls tr = map fst tr"

subsection \<open>Invariants of statements\<close>

text \<open>\<open>keeps P m\<close>: from a state in \<open>P\<close>, \<open>m\<close> ends in \<open>P\<close>, whether it returns or throws.\<close>

definition keeps :: "(bot \<Rightarrow> bool) \<Rightarrow> 'a act \<Rightarrow> bool" where
  "keeps P m = (\<forall>s. P s \<longrightarrow> P (snd (m s)))"

subsection \<open>Transient disconnects, in the words of the specification\<close>

text \<open>A close event that carries no QR code and whose cause is not an explicit logout.\<close>

definition transientClose :: "env \<Rightarrow> connUpdate \<Rightarrow> bool" where
  "transientClose env u =
     (connection u = Some Close \<and> shouldReconnect env u \<and> \<not> truthy (qr u))"

subsection \<open>What a close event leaves alone\<close>

definition sameObs :: "bot \<Rightarrow> bot \<Rightarrow> bool" where
  "sameObs s t =
     (retryCount t = retryCount s \<and> maxRetries t = maxRetries s \<and>
      telegramBridge t = telegramBridge s \<and> sock t = sock s \<and> store t = store s \<and>
      moduleLoader t = moduleLoader s \<and>
      attempts (trace t) = attempts (trace s) \<and> delays (trace t) = delays (trace s) \<and>
      notifications (trace t) = notifications (trace s))"

subsection \<open>Sample environments and states\<close>

text \<open>
  \<open>env0\<close>: no call throws, the bridge is not configured; \<open>envT\<close>: the same with the
  bridge configured. \<open>ready\<close> is the bot after \<open>initialize\<close>, \<open>readyT\<close> the bot after
  \<open>initialize\<close> and a first open event with the bridge configured.
\<close>

definition env0 :: env where
  "env0 = \<lparr>loggedOut = 401, useMongoAuth = False, telegram_enabled = False,
     throws = (\<lambda>tr c. False), pictureUrl = (\<lambda>tr j. None)\<rparr>"

definition closeOf :: "js_error option \<Rightarrow> connUpdate" where
  "closeOf e = \<lparr>connection = Some Close, lastDisconnect = Some \<lparr>err = e\<rparr>, qr = None\<rparr>"

definition ready :: bot where
  "ready = snd (initialize env0 constructor)"

definition envT :: env where
  "envT = env0\<lparr>telegram_enabled := True\<rparr>"

definition openUpdate :: connUpdate where
  "openUpdate = \<lparr>connection = Some Open, lastDisconnect = None, qr = None\<rparr>"

definition readyT :: bot where
  "readyT = snd (handleConnectionUpdate envT openUpdate (snd (initialize envT constructor)))"

subsection \<open>Observations of the bridge\<close>

definition bridgeSetups :: "entry list \<Rightarrow> nat" where
  "bridgeSetups tr = length (filter (\<lambda>e. fst e = SetupWhatsAppHandlers) tr)"

definition bridgeInv :: "bot \<Rightarrow> bool" where
  "bridgeInv s =
     ((telegramBridge s = None \<longrightarrow>
         bridgesMade (trace s) = 0 \<and> bridgeInits (trace s) = 0) \<and>
      (telegramBridge s \<noteq> None \<longrightarrow>
         bridgesMade (trace s) = 1 \<and> bridgeInits (trace s) \<le> 1))"

definition bridgeKept :: "bot \<Rightarrow> bot \<Rightarrow> bool" where
  "bridgeKept s t =
     (telegramBridge t = telegramBridge s \<and>
      bridgesMade (trace t) = bridgesMade (trace s) \<and>
      bridgeInits (trace t) = bridgeInits (trace s) \<and>
      bridgeSetups (trace t) = bridgeSetups (trace s))"

subsection \<open>Ended handles, and more sample environments and states\<close>

text \<open>A handle is ended once \<open>sock.end()\<close> has returned on it.\<close>

definition ended :: "entry list \<Rightarrow> ref \<Rightarrow> bool" where
  "ended tr h = ((SockEnd h, Returned) \<in> set tr)"

text \<open>
  \<open>envSave\<close>: \<open>saveCreds\<close> throws; \<open>envBridge\<close>: the bridge's \<open>shutdown\<close> throws, the bridge
  being configured; \<open>envEnded\<close>: \<open>sendMessage\<close> on an ended handle throws.
\<close>

definition envSave :: env where
  "envSave = env0\<lparr>throws := (\<lambda>tr c. c = SaveCreds)\<rparr>"

definition envBridge :: env where
  "envBridge = envT\<lparr>throws := (\<lambda>tr c. c = BridgeShutdown)\<rparr>"

definition envEnded :: env where
  "envEnded = env0\<lparr>throws :=
     (\<lambda>tr c. case c of SockSendMessage h j \<Rightarrow> ended tr h | _ \<Rightarrow> False)\<rparr>"

definition emptyBatch :: batch where
  "emptyBatch = \<lparr>connection_update = None, creds_update = None, messages_upsert = None,
     messages_update = None, message_receipt_update = None, messages_reaction = None,
     presence_update = None, chats_update = None, chats_delete = None,
     contacts_update = None, contacts_upsert = None, call_ev = None,
     messaging_history_set = None, labels_association = None, labels_edit = None\<rparr>"

text \<open>\<open>cached\<close>: the bot after \<open>initialize\<close>, its store holding one message and one contact.\<close>

definition cached :: bot where
  "cached = ready\<lparr>store := Some
     \<lparr>messages = [''a@s.whatsapp.net'' \<mapsto> [''M1'' \<mapsto> \<lparr>message = Some ''hello''\<rparr>]],
      contacts = [''a@s.whatsapp.net'' \<mapsto> ''Ann'']\<rparr>\<rparr>"

text \<open>\<open>envAuth\<close>: loading the file-based authentication state throws.\<close>

definition envAuth :: env where
  "envAuth = env0\<lparr>throws := (\<lambda>tr c. c = UseMultiFileAuthState ''auth_info'')\<rparr>"

subsection \<open>Observations of startConnection\<close>

text \<open>
  \<open>storesMade\<close> counts the calls of \<open>makeInMemoryStore\<close> that returned. \<open>startsAfter tr r s\<close>:
  the trace of \<open>s\<close> is \<open>tr\<close>, then the first call of \<open>startConnection\<close> with outcome \<open>r\<close>,
  then calls none of which is a delay or the first call of another \<open>startConnection\<close>.
\<close>

definition storesMade :: "entry list \<Rightarrow> nat" where
  "storesMade tr = length (filter (\<lambda>e. e = (MakeInMemoryStore, Returned)) tr)"

definition startsAfter :: "entry list \<Rightarrow> outcome \<Rightarrow> bot \<Rightarrow> bool" where
  "startsAfter tr r s =
     (\<exists>rest. trace s = tr @ (ConfigGet ''auth.useMongoAuth'', r) # rest \<and>
             attempts rest = 0 \<and> delays rest = [])"

section \<open>Rules for statements\<close>

lemma keepsD: "keeps P m \<Longrightarrow> P s \<Longrightarrow> P (snd (m s))"
  by (simp add: keeps_def)

lemma keeps_ret: "keeps P (ret x)"
  by (simp add: keeps_def ret_def)

lemma keeps_throw: "keeps P (throw e)"
  by (simp add: keeps_def throw_def)

lemma keeps_reads: "keeps P (reads f)"
  by (simp add: keeps_def reads_def)

lemma keeps_assign: "(\<And>s. P s \<Longrightarrow> P (f s)) \<Longrightarrow> keeps P (assign f)"
  by (simp add: keeps_def assign_def)

lemma keeps_ext: "(\<And>s r. P s \<Longrightarrow> P (record_call c r s)) \<Longrightarrow> keeps P (ext env c)"
  by (simp add: keeps_def ext_def)

lemma keeps_extNew: "(\<And>s r. P s \<Longrightarrow> P (record_call c r s)) \<Longrightarrow> keeps P (extNew env c)"
  by (simp add: keeps_def extNew_def)

lemma keeps_perform: "(\<And>s r. P s \<Longrightarrow> P (record_call c r s)) \<Longrightarrow> keeps P (perform c)"
  by (simp add: keeps_def perform_def)

lemma keeps_logger:
  "(\<And>s r. P s \<Longrightarrow> P (record_call (Logger l m) r s)) \<Longrightarrow> keeps P (logger l m)"
  by (simp add: logger_def keeps_perform)

lemma keeps_bind:
  assumes "keeps P m" and "\<And>x. keeps P (f x)"
  shows "keeps P (bindAct m f)"
proof -
  have "P (snd (bindAct m f s))" if "P s" for s
  proof (cases "m s")
    case (Pair r s')
    from keepsD [OF assms(1) that] Pair have s': "P s'" by simp
    show ?thesis
    proof (cases r)
      case (Inl e)
      with Pair s' show ?thesis by (simp add: bindAct_def)
    next
      case (Inr x)
      with Pair keepsD [OF assms(2) s', of x] show ?thesis by (simp add: bindAct_def)
    qed
  qed
  then show ?thesis by (simp add: keeps_def)
qed

lemma keeps_then: "keeps P m \<Longrightarrow> keeps P n \<Longrightarrow> keeps P (thenAct m n)"
  by (simp add: thenAct_def keeps_bind)

lemma keeps_block_Nil: "keeps P (block [])"
  by (simp add: keeps_ret)

lemma keeps_block_Cons: "keeps P m \<Longrightarrow> keeps P (block ms) \<Longrightarrow> keeps P (block (m # ms))"
  by (simp add: keeps_then)

lemma keeps_tryCatch:
  assumes "keeps P m" and "\<And>e. keeps P (h e)"
  shows "keeps P (tryCatch m h)"
proof -
  have "P (snd (tryCatch m h s))" if "P s" for s
  proof (cases "m s")
    case (Pair r s')
    from keepsD [OF assms(1) that] Pair have s': "P s'" by simp
    show ?thesis
    proof (cases r)
      case (Inl e)
      with Pair keepsD [OF assms(2) s', of e] show ?thesis by (simp add: tryCatch_def)
    next
      case (Inr x)
      with Pair s' show ?thesis by (simp add: tryCatch_def)
    qed
  qed
  then show ?thesis by (simp add: keeps_def)
qed

lemma keeps_when: "keeps P m \<Longrightarrow> keeps P (whenAct b m)"
  by (simp add: whenAct_def keeps_ret)

lemma keeps_ifAct: "keeps P m \<Longrightarrow> keeps P n \<Longrightarrow> keeps P (ifAct c m n)"
  by (simp add: keeps_def ifAct_def)

lemma keeps_if: "keeps P m \<Longrightarrow> keeps P n \<Longrightarrow> keeps P (if b then m else n)"
  by simp

lemma keeps_case_option:
  "keeps P a \<Longrightarrow> (\<And>x. keeps P (f x)) \<Longrightarrow> keeps P (case v of None \<Rightarrow> a | Some x \<Rightarrow> f x)"
  by (cases v) simp_all

lemma keeps_case_js:
  "keeps P a \<Longrightarrow> keeps P b \<Longrightarrow> (\<And>x. keeps P (f x)) \<Longrightarrow>
   keeps P (case v of Undefined \<Rightarrow> a | Null \<Rightarrow> b | Val x \<Rightarrow> f x)"
  by (cases v) simp_all

lemma keeps_forEach: "(\<And>x. keeps P (f x)) \<Longrightarrow> keeps P (forEach f xs)"
  by (induction xs) (simp_all add: keeps_ret keeps_then)

lemmas keeps_rules =
  keeps_ret keeps_throw keeps_reads keeps_bind keeps_then keeps_block_Nil keeps_block_Cons
  keeps_tryCatch keeps_when keeps_ifAct keeps_if keeps_case_option keeps_case_js
  keeps_forEach keeps_assign keeps_ext keeps_extNew keeps_perform keeps_logger

lemmas act_defs =
  tryCatch_def thenAct_def bindAct_def ext_def extNew_def perform_def logger_def assign_def
  reads_def ifAct_def whenAct_def throw_def ret_def record_call_def

lemma attempts_simps:
  "attempts [] = 0"
  "attempts (e # es) = (if isStart e then Suc (attempts es) else attempts es)"
  "attempts (xs @ ys) = attempts xs + attempts ys"
  by (simp_all add: attempts_def)

lemma notifications_simps:
  "notifications [] = 0"
  "notifications (e # es) = (if isNotify e then Suc (notifications es) else notifications es)"
  "notifications (xs @ ys) = notifications xs + notifications ys"
  by (simp_all add: notifications_def)

lemma delays_simps:
  "delays [] = []"
  "delays (e # es) = (case delayOf e of None \<Rightarrow> delays es | Some d \<Rightarrow> d # delays es)"
  "delays (xs @ ys) = delays xs @ delays ys"
  by (simp_all add: delays_def map_filter_def split: option.splits)

lemmas obs_defs =
  attempts_simps notifications_simps delays_simps isStart_def delayOf_def isNotify_def

section \<open>The supervisor\<close>

lemma shouldReconnect_iff: "shouldReconnect env u = (\<not> explicitLogout env u)"
  by (auto simp: shouldReconnect_def explicitLogout_def disconnectError_def
      split: option.splits js_error.splits)

lemma handleConnectionUpdate_close:
  "connection u = Some Close \<Longrightarrow>
   handleConnectionUpdate env u s =
     (case onQr env u s of (Inl e, s') \<Rightarrow> (Inl e, s') | (Inr x, s') \<Rightarrow> onClose env u s')"
  by (simp add: handleConnectionUpdate_def thenAct_def bindAct_def onOpen_def whenAct_def
      ret_def split: prod.splits sum.splits)

lemma handleConnectionUpdate_open:
  "connection u = Some Open \<Longrightarrow>
   handleConnectionUpdate env u s =
     (case onQr env u s of (Inl e, s') \<Rightarrow> (Inl e, s') | (Inr x, s') \<Rightarrow> onOpen env u s')"
  by (simp add: handleConnectionUpdate_def thenAct_def bindAct_def onClose_def whenAct_def
      ret_def split: prod.splits sum.splits)

lemma tryCatch_block_first:
  assumes "\<And>v. keeps (\<lambda>s. f s = v) (block ms)"
    and "\<And>v e. keeps (\<lambda>s. f s = v) (h e)"
  shows "f (snd (tryCatch (block (m # ms)) h s)) = f (snd (m s))"
proof (cases "m s")
  case (Pair r s1)
  show ?thesis
  proof (cases r)
    case (Inl e)
    with Pair keepsD [OF assms(2), of s1 "f s1" e] show ?thesis
      by (simp add: tryCatch_def thenAct_def bindAct_def)
  next
    case (Inr x)
    obtain r2 s2 where b: "block ms s1 = (r2, s2)" by (cases "block ms s1")
    from keepsD [OF assms(1), of s1 "f s1"] b have s2: "f s2 = f s1" by simp
    show ?thesis
    proof (cases r2)
      case (Inl e)
      with Pair Inr b s2 keepsD [OF assms(2), of s2 "f s2" e] show ?thesis
        by (simp add: tryCatch_def thenAct_def bindAct_def)
    next
      case (Inr y)
      with Pair \<open>r = Inr x\<close> b s2 show ?thesis
        by (simp add: tryCatch_def thenAct_def bindAct_def)
    qed
  qed
qed

lemma startConnection_attempts:
  "attempts (trace (snd (startConnection env s))) = Suc (attempts (trace s))"
proof -
  have "(\<lambda>s. attempts (trace s)) (snd (startConnection env s)) =
        (\<lambda>s. attempts (trace s)) (snd (ext env (ConfigGet ''auth.useMongoAuth'') s))"
    unfolding startConnection_def setupEventHandlers_def
    by (rule tryCatch_block_first; intro keeps_rules)
      (simp_all add: record_call_def obs_defs)
  then show ?thesis
    by (simp add: ext_def record_call_def obs_defs)
qed

text \<open>\<open>startConnection\<close> writes \<open>store\<close> and \<open>sock\<close> and makes calls; nothing else.\<close>

lemma keeps_startConnection:
  assumes "\<And>s c r. P s \<Longrightarrow> P (record_call c r s)"
    and "\<And>s v. P s \<Longrightarrow> P (s\<lparr>store := v\<rparr>)"
    and "\<And>s v. P s \<Longrightarrow> P (s\<lparr>sock := v\<rparr>)"
  shows "keeps P (startConnection env)"
  unfolding startConnection_def setupEventHandlers_def
  by (intro keeps_rules) (simp_all add: assms)

lemma startConnection_fields:
  "retryCount (snd (startConnection env s)) = retryCount s"
  "maxRetries (snd (startConnection env s)) = maxRetries s"
  "telegramBridge (snd (startConnection env s)) = telegramBridge s"
proof -
  have "keeps (\<lambda>t. retryCount t = retryCount s \<and> maxRetries t = maxRetries s \<and>
          telegramBridge t = telegramBridge s) (startConnection env)"
    by (rule keeps_startConnection) (simp_all add: record_call_def)
  from keepsD [OF this, of s]
  show "retryCount (snd (startConnection env s)) = retryCount s"
    "maxRetries (snd (startConnection env s)) = maxRetries s"
    "telegramBridge (snd (startConnection env s)) = telegramBridge s"
    by simp_all
qed

lemma startConnection_delays:
  "delays (trace (snd (startConnection env s))) = delays (trace s)"
proof -
  have "keeps (\<lambda>t. delays (trace t) = delays (trace s)) (startConnection env)"
    unfolding startConnection_def setupEventHandlers_def
    by (intro keeps_rules)
      (simp_all add: record_call_def obs_defs)
  from keepsD [OF this, of s] show ?thesis by simp
qed

lemma startConnection_notifications:
  "notifications (trace (snd (startConnection env s))) = notifications (trace s)"
proof -
  have "keeps (\<lambda>t. notifications (trace t) = notifications (trace s)) (startConnection env)"
    unfolding startConnection_def setupEventHandlers_def
    by (intro keeps_rules)
      (simp_all add: record_call_def obs_defs)
  from keepsD [OF this, of s] show ?thesis by simp
qed

text \<open>The QR step makes calls only, none of them counted by the observations below.\<close>

lemma keeps_onQr:
  assumes "\<And>s l m r. P s \<Longrightarrow> P (record_call (Logger l m) r s)"
    and "\<And>s q r. P s \<Longrightarrow> P (record_call (SendQRCode q) r s)"
    and "\<And>s r. P s \<Longrightarrow> P (record_call ImportQrcodeTerminal r s)"
    and "\<And>s q r. P s \<Longrightarrow> P (record_call (QRCodeGenerate q) r s)"
  shows "keeps P (onQr env u)"
  unfolding onQr_def
  by (intro keeps_rules) (simp_all add: assms)

lemma onQr_sameObs: "sameObs s (snd (onQr env u s))"
proof -
  have "keeps (sameObs s) (onQr env u)"
    by (rule keeps_onQr)
      (simp_all add: sameObs_def record_call_def obs_defs)
  from keepsD [OF this, of s] show ?thesis by (simp add: sameObs_def)
qed

lemma onQr_absent: "\<not> truthy (qr u) \<Longrightarrow> onQr env u s = (Inr (), s)"
  by (simp add: onQr_def truthy_def whenAct_def ret_def split: option.splits)

lemma onClose_retry:
  assumes "connection u = Some Close" and "shouldReconnect env u"
    and "retryCount s < maxRetries s"
  shows "onClose env u s = startConnection env
           (s\<lparr>retryCount := Suc (retryCount s),
              trace := trace s @
                [(Logger LInfo ''Connection closed due to , reconnecting: '', Returned),
                 (Logger LInfo ''Reconnecting in  seconds (attempt /)...'', Returned),
                 (Delay (retryDelay (Suc (retryCount s))), Returned)]\<rparr>)"
  using assms
  by (simp add: onClose_def act_defs split: prod.splits sum.splits)

lemma onClose_ceiling:
  assumes "connection u = Some Close" and "shouldReconnect env u"
    and "\<not> retryCount s < maxRetries s"
  shows "onClose env u s =
           (let s1 = s\<lparr>trace := trace s @
                  [(Logger LInfo ''Connection closed due to , reconnecting: '', Returned),
                   (Logger LError ''Max reconnection attempts reached. Please restart the bot.'',
                    Returned)]\<rparr>;
                c = SendToAllUsers
                  ''Connection lost. Max reconnection attempts reached. Please restart the bot.''
            in if telegramBridge s = None then (Inr (), s1) else ext env c s1)"
  using assms
  by (simp add: onClose_def act_defs Let_def split: prod.splits sum.splits)

lemma onClose_logout:
  assumes "connection u = Some Close" and "\<not> shouldReconnect env u"
  shows "onClose env u s =
           (let s1 = s\<lparr>trace := trace s @
                  [(Logger LInfo ''Connection closed due to , reconnecting: '', Returned),
                   (Logger LInfo ''Connection closed permanently. You are logged out.'',
                    Returned)]\<rparr>;
                c = SendToAllUsers ''WhatsApp connection closed. You have been logged out.''
            in if telegramBridge s = None then (Inr (), s1) else ext env c s1)"
  using assms
  by (simp add: onClose_def act_defs Let_def split: prod.splits sum.splits)

text \<open>What one close event does, once its QR step has returned.\<close>

lemma close_retry_obs:
  assumes "connection u = Some Close" and "shouldReconnect env u"
    and "fst (onQr env u s) = Inr ()" and "retryCount s < maxRetries s"
  defines "s' \<equiv> snd (handleConnectionUpdate env u s)"
  shows "retryCount s' = Suc (retryCount s) \<and> maxRetries s' = maxRetries s \<and>
         telegramBridge s' = telegramBridge s \<and>
         attempts (trace s') = Suc (attempts (trace s)) \<and>
         delays (trace s') = delays (trace s) @ [retryDelay (Suc (retryCount s))] \<and>
         notifications (trace s') = notifications (trace s)"
proof -
  obtain s1 where q: "onQr env u s = (Inr (), s1)"
    using assms(3) by (cases "onQr env u s") auto
  from onQr_sameObs [of s env u] q have same: "sameObs s s1" by simp
  then have lt: "retryCount s1 < maxRetries s1"
    using assms(4) by (simp add: sameObs_def)
  have "s' = snd (onClose env u s1)"
    using q assms(1) by (simp add: s'_def handleConnectionUpdate_close)
  then show ?thesis
    using same
    by (simp add: onClose_retry [OF assms(1,2) lt] startConnection_fields
        startConnection_attempts startConnection_delays startConnection_notifications
        sameObs_def obs_defs)
qed

lemma close_stop_obs:
  assumes "connection u = Some Close"
    and "fst (onQr env u s) = Inr ()"
    and "\<not> shouldReconnect env u \<or> \<not> retryCount s < maxRetries s"
  defines "s' \<equiv> snd (handleConnectionUpdate env u s)"
  shows "retryCount s' = retryCount s \<and> maxRetries s' = maxRetries s \<and>
         telegramBridge s' = telegramBridge s \<and> sock s' = sock s \<and> store s' = store s \<and>
         attempts (trace s') = attempts (trace s) \<and>
         delays (trace s') = delays (trace s) \<and>
         notifications (trace s') =
           notifications (trace s) + (if telegramBridge s = None then 0 else 1)"
proof -
  obtain s1 where q: "onQr env u s = (Inr (), s1)"
    using assms(2) by (cases "onQr env u s") auto
  from onQr_sameObs [of s env u] q have same: "sameObs s s1" by simp
  have eq: "s' = snd (onClose env u s1)"
    using q assms(1) by (simp add: s'_def handleConnectionUpdate_close)
  show ?thesis
  proof (cases "shouldReconnect env u")
    case True
    with assms(3) same have "\<not> retryCount s1 < maxRetries s1" by (simp add: sameObs_def)
    from onClose_ceiling [OF assms(1) True this] eq same show ?thesis
      by (simp add: sameObs_def obs_defs Let_def ext_def record_call_def)
  next
    case False
    from onClose_logout [OF assms(1) False] eq same show ?thesis
      by (simp add: sameObs_def obs_defs Let_def ext_def record_call_def)
  qed
qed

lemmas run_defs =
  initialize_def startConnection_def setupEventHandlers_def handleConnectionUpdate_def
  onQr_def onClose_def onOpen_def

lemma ready_eq:
  "ready = \<lparr>sock = Some 14, store = Some makeInMemoryStore, messageHandler = Some 3,
     moduleLoader = Some 4, telegramBridge = None, db = Some 1, isInitialized = True,
     retryCount = 0, maxRetries = 5,
     trace =
      [(Logger LInfo ''Initializing HyperWa Bot...'', Returned),
       (ConnectDb, Returned),
       (Logger LInfo ''Database connected'', Returned),
       (NewMessageHandler, Returned), (NewModuleLoader, Returned),
       (ConfigGet ''auth.useMongoAuth'', Returned),
       (ConfigGet ''auth.clearAuthOnStart'', Returned),
       (Logger LInfo ''Using file-based authentication state'', Returned),
       (UseMultiFileAuthState ''auth_info'', Returned),
       (FetchLatestBaileysVersion, Returned),
       (Logger LInfo ''Using WA v, isLatest: '', Returned),
       (MakeInMemoryStore, Returned),
       (MakeCacheableSignalKeyStore, Returned),
       (ConfigGet ''telegram.enabled'', Returned), (MakeWASocket, Returned),
       (StoreBind 14, Returned), (EvProcess 14, Returned),
       (Logger LInfo ''WhatsApp connection started'', Returned),
       (Logger LInfo ''HyperWa Bot initialization complete'', Returned)]\<rparr>"
  by (simp add: ready_def run_defs env0_def constructor_def act_defs)

lemma ready_obs:
  "sock ready = Some 14" "telegramBridge ready = None" "retryCount ready = 0"
  "maxRetries ready = 5" "attempts (trace ready) = 1" "delays (trace ready) = []"
  "notifications (trace ready) = 0" "moduleLoader ready = Some 4"
  by (simp_all add: ready_eq obs_defs)

lemma readyT_obs:
  "sock readyT = Some 14" "telegramBridge readyT = Some 23" "retryCount readyT = 0"
  "maxRetries readyT = 5" "attempts (trace readyT) = 1" "delays (trace readyT) = []"
  "notifications (trace readyT) = 0" "moduleLoader readyT = Some 4"
  by (simp_all add: readyT_def envT_def openUpdate_def run_defs env0_def constructor_def
      act_defs obs_defs)

lemma retryDelay_mono: "retryDelay n \<le> retryDelay (Suc n)"
  by (simp add: retryDelay_def min_le_iff_disj)

lemma retryDelay_values:
  "map retryDelay [1, 2, 3, 4, 5] = [2000, 4000, 8000, 16000, 30000]"
  by (simp add: retryDelay_def)

lemma whenAct_True: "whenAct True m = m"
  by (simp add: whenAct_def)

lemma whenAct_False: "whenAct False m = ret ()"
  by (simp add: whenAct_def)

lemma block_Cons_returns: "fst (m s) = Inr () \<Longrightarrow> block (m # ms) s = block ms (snd (m s))"
  by (cases "m s") (simp add: thenAct_def bindAct_def)

lemma onOpen_resets:
  assumes "connection u = Some Open" and "sock s \<noteq> None"
  shows "retryCount (snd (onOpen env u s)) = 0"
proof -
  have "keeps (\<lambda>s. retryCount s = 0)
     (block [ifAct (\<lambda>s. moduleLoader s = None) (throw TypeError) (ext env LoadModules),
          ext env (ConfigGet ''telegram.enabled''),
          whenAct (telegram_enabled env)
            (block [
               ifAct (\<lambda>s. telegramBridge s = None)
                 (block [
                    bindAct (extNew env NewTelegramBridge)
                      (\<lambda>b. assign (\<lambda>s. s\<lparr>telegramBridge := Some b\<rparr>)),
                    ext env BridgeInitialize,
                    ext env SetupWhatsAppHandlers])
                 (ret ()),
               ext env SyncContacts,
               ext env UpdateTopicNames,
               ext env SendStartMessage])])"
    by (intro keeps_rules) (simp_all add: record_call_def)
  moreover obtain h where "sock s = Some h"
    using assms(2) by auto
  ultimately show ?thesis
    unfolding onOpen_def keeps_def using assms(1)
    by (simp add: whenAct_True block_Cons_returns logger_def perform_def ifAct_def
        assign_def record_call_def del: block.simps)
qed

lemma onOpen_maxRetries: "maxRetries (snd (onOpen env u s)) = maxRetries s"
proof -
  have "keeps (\<lambda>t. maxRetries t = maxRetries s) (onOpen env u)"
    unfolding onOpen_def by (intro keeps_rules) (simp_all add: record_call_def)
  from keepsD [OF this, of s] show ?thesis by simp
qed

text \<open>The order of the delay and the connection attempt on the retry path.\<close>

lemma tryCatch_block_inv:
  assumes "keeps P (block ms)" and "\<And>e. keeps P (h e)" and "P (snd (m s))"
  shows "P (snd (tryCatch (block (m # ms)) h s))"
proof (cases "m s")
  case (Pair r s1)
  with assms(3) have s1: "P s1" by simp
  show ?thesis
  proof (cases r)
    case (Inl e)
    with Pair keepsD [OF assms(2) s1, of e] show ?thesis
      by (simp add: tryCatch_def thenAct_def bindAct_def)
  next
    case (Inr x)
    obtain r2 s2 where b: "block ms s1 = (r2, s2)" by (cases "block ms s1")
    from keepsD [OF assms(1) s1] b have s2: "P s2" by simp
    show ?thesis
    proof (cases r2)
      case (Inl e)
      with Pair Inr b keepsD [OF assms(2) s2, of e] show ?thesis
        by (simp add: tryCatch_def thenAct_def bindAct_def)
    next
      case (Inr y)
      with Pair \<open>r = Inr x\<close> b s2 show ?thesis
        by (simp add: tryCatch_def thenAct_def bindAct_def)
    qed
  qed
qed

lemma startsAfter_record:
  "startsAfter tr r s \<Longrightarrow> \<not> isStart (c, r') \<Longrightarrow> delayOf (c, r') = None \<Longrightarrow>
   startsAfter tr r (record_call c r' s)"
  by (auto simp: startsAfter_def record_call_def attempts_simps delays_simps)

lemma startsAfter_fields:
  "startsAfter tr r (s\<lparr>store := a\<rparr>) = startsAfter tr r s"
  "startsAfter tr r (s\<lparr>sock := b\<rparr>) = startsAfter tr r s"
  by (simp_all add: startsAfter_def)

lemma startConnection_startsAfter:
  "startsAfter (trace s)
     (if throws env (trace s) (ConfigGet ''auth.useMongoAuth'') then Thrown else Returned)
     (snd (startConnection env s))"
  unfolding startConnection_def setupEventHandlers_def
proof (rule tryCatch_block_inv)
  show "startsAfter (trace s)
     (if throws env (trace s) (ConfigGet ''auth.useMongoAuth'') then Thrown else Returned)
     (snd (ext env (ConfigGet ''auth.useMongoAuth'') s))"
    by (simp add: startsAfter_def ext_def record_call_def attempts_simps delays_simps)
qed (intro keeps_rules; simp add: startsAfter_record startsAfter_fields isStart_def delayOf_def)+

lemma close_retry_order:
  assumes "connection u = Some Close" and "shouldReconnect env u"
    and "fst (onQr env u s) = Inr ()" and "retryCount s < maxRetries s"
  shows "\<exists>pre r rest.
           trace (snd (handleConnectionUpdate env u s)) =
             pre @ (Delay (retryDelay (Suc (retryCount s))), Returned) #
               (ConfigGet ''auth.useMongoAuth'', r) # rest \<and>
           delays pre = delays (trace s) \<and> attempts pre = attempts (trace s) \<and>
           delays rest = [] \<and> attempts rest = 0"
proof -
  obtain s1 where q: "onQr env u s = (Inr (), s1)"
    using assms(3) by (cases "onQr env u s") auto
  from onQr_sameObs [of s env u] q have same: "sameObs s s1" by simp
  then have lt: "retryCount s1 < maxRetries s1"
    using assms(4) by (simp add: sameObs_def)
  let ?pre = "trace s1 @
     [(Logger LInfo ''Connection closed due to , reconnecting: '', Returned),
      (Logger LInfo ''Reconnecting in  seconds (attempt /)...'', Returned)]"
  let ?s2 = "s1\<lparr>retryCount := Suc (retryCount s1),
       trace := ?pre @ [(Delay (retryDelay (Suc (retryCount s1))), Returned)]\<rparr>"
  have run: "snd (handleConnectionUpdate env u s) = snd (startConnection env ?s2)"
    using q assms(1) by (simp add: handleConnectionUpdate_close onClose_retry [OF assms(1,2) lt])
  from startConnection_startsAfter [of ?s2 env]
  obtain r rest where "trace (snd (startConnection env ?s2)) =
      trace ?s2 @ (ConfigGet ''auth.useMongoAuth'', r) # rest"
    "attempts rest = 0" "delays rest = []"
    unfolding startsAfter_def by blast
  with run same have "trace (snd (handleConnectionUpdate env u s)) =
      ?pre @ (Delay (retryDelay (Suc (retryCount s))), Returned) #
        (ConfigGet ''auth.useMongoAuth'', r) # rest \<and>
      delays ?pre = delays (trace s) \<and> attempts ?pre = attempts (trace s) \<and>
      delays rest = [] \<and> attempts rest = 0"
    by (simp add: sameObs_def obs_defs)
  then show ?thesis by blast
qed

section \<open>Claims about the supervisor\<close>

text \<open>
  C1. A close event whose QR step (if the update also carries a QR code) has returned
  makes a connection attempt exactly when the cause is not an explicit logout and the
  retry ceiling is not reached: for a Boom error with the logged-out status code it makes
  none, whatever \<open>retryCount\<close> is; for every other cause, an absent or non-Boom error
  included, it makes one when \<open>retryCount < maxRetries\<close>.
\<close>

theorem C1_reconnect_unless_logged_out:
  assumes "connection u = Some Close" and "fst (onQr env u s) = Inr ()"
  shows "attempts (trace (snd (handleConnectionUpdate env u s))) =
           attempts (trace s) +
             (if explicitLogout env u then 0
              else if retryCount s < maxRetries s then 1 else 0)"
proof (cases "shouldReconnect env u \<and> retryCount s < maxRetries s")
  case True
  with close_retry_obs [OF assms(1) _ assms(2)] show ?thesis
    by (simp add: shouldReconnect_iff)
next
  case False
  then have "\<not> shouldReconnect env u \<or> \<not> retryCount s < maxRetries s" by simp
  from close_stop_obs [OF assms this] False show ?thesis
    by (auto simp: shouldReconnect_iff)
qed

theorem C1_reconnect_unless_logged_out_witness:
  "connection (closeOf None) = Some Close \<and>
   fst (onQr env0 (closeOf None) ready) = Inr () \<and>
   attempts (trace (snd (handleConnectionUpdate env0 (closeOf None) ready))) = 2 \<and>
   attempts (trace (snd (handleConnectionUpdate env0 (closeOf (Some (Boom (Some 401)))) ready)))
     = 1"
  using C1_reconnect_unless_logged_out [of "closeOf None" env0 ready]
    C1_reconnect_unless_logged_out [of "closeOf (Some (Boom (Some 401)))" env0 ready]
  by (simp add: closeOf_def onQr_absent truthy_def explicitLogout_def env0_def ready_obs)

text \<open>
  C2. On a transient close below the ceiling, the bot increments \<open>retryCount\<close>, waits
  \<open>min (1000 * 2 ^ n) 30000\<close> milliseconds for the new value \<open>n\<close> of \<open>retryCount\<close>, and
  then makes one connection attempt: the delay is the call just before the first call of
  \<open>startConnection\<close>, and the handler makes no other delay and no other attempt. For \<open>n = 1..5\<close> the delays are 2000, 4000, 8000, 16000
  and 30000; the delay never decreases with \<open>n\<close> and never exceeds 30000. From
  \<open>retryCount = 0\<close> the one delay is 2000 and \<open>retryCount\<close> becomes 1.
\<close>

theorem C2_backoff_delay:
  assumes "connection u = Some Close" and "shouldReconnect env u"
    and "fst (onQr env u s) = Inr ()" and "retryCount s < maxRetries s"
  shows "delays (trace (snd (handleConnectionUpdate env u s))) =
           delays (trace s) @ [min (1000 * 2 ^ (retryCount s + 1)) 30000] \<and>
         retryCount (snd (handleConnectionUpdate env u s)) = retryCount s + 1 \<and>
         attempts (trace (snd (handleConnectionUpdate env u s))) = attempts (trace s) + 1 \<and>
         map retryDelay [1, 2, 3, 4, 5] = [2000, 4000, 8000, 16000, 30000] \<and>
         (\<forall>n. retryDelay n \<le> retryDelay (n + 1)) \<and>
         (\<forall>n. retryDelay n \<le> 30000) \<and>
         (retryCount s = 0 \<longrightarrow>
            delays (trace (snd (handleConnectionUpdate env u s))) = delays (trace s) @ [2000] \<and>
            retryCount (snd (handleConnectionUpdate env u s)) = 1) \<and>
         (\<exists>pre r rest.
            trace (snd (handleConnectionUpdate env u s)) =
              pre @ (Delay (min (1000 * 2 ^ (retryCount s + 1)) 30000), Returned) #
                (ConfigGet ''auth.useMongoAuth'', r) # rest \<and>
            delays pre = delays (trace s) \<and> attempts pre = attempts (trace s) \<and>
            delays rest = [] \<and> attempts rest = 0)"
proof -
  note obs = close_retry_obs [OF assms]
  note order = close_retry_order [OF assms]
  have "\<forall>n. retryDelay n \<le> retryDelay (n + 1)"
    using retryDelay_mono by simp
  moreover have "\<forall>n. retryDelay n \<le> 30000"
    by (simp add: retryDelay_def)
  moreover have "retryDelay (Suc 0) = 2000"
    by (simp add: retryDelay_def)
  ultimately show ?thesis
    using obs retryDelay_values order by (simp add: retryDelay_def)
qed

theorem C2_backoff_delay_witness:
  "connection (closeOf None) = Some Close \<and> shouldReconnect env0 (closeOf None) \<and>
   fst (onQr env0 (closeOf None) ready) = Inr () \<and> retryCount ready < maxRetries ready \<and>
   delays (trace (snd (handleConnectionUpdate env0 (closeOf None) ready))) = [2000] \<and>
   retryCount (snd (handleConnectionUpdate env0 (closeOf None) ready)) = 1"
  using C2_backoff_delay [of "closeOf None" env0 ready]
  by (simp add: closeOf_def onQr_absent truthy_def shouldReconnect_def disconnectError_def
      ready_obs)

text \<open>
  C4. An open event, delivered on a bot that has a socket and whose QR step (if any) has
  returned, leaves \<open>retryCount = 0\<close> whatever it was before, also when a later step of the
  handler throws; the next transient close then waits \<open>retryDelay 1 = 2000\<close> ms and
  leaves \<open>retryCount = 1\<close>.
\<close>

theorem C4_open_resets_retryCount:
  assumes "connection u = Some Open" and "fst (onQr env u s) = Inr ()"
    and "sock s \<noteq> None"
  shows "retryCount (snd (handleConnectionUpdate env u s)) = 0 \<and>
         (\<forall>u2. connection u2 = Some Close \<and> shouldReconnect env u2 \<and>
               fst (onQr env u2 (snd (handleConnectionUpdate env u s))) = Inr () \<and>
               0 < maxRetries s \<longrightarrow>
            retryCount (snd (handleConnectionUpdate env u2
               (snd (handleConnectionUpdate env u s)))) = 1 \<and>
            delays (trace (snd (handleConnectionUpdate env u2
               (snd (handleConnectionUpdate env u s))))) =
              delays (trace (snd (handleConnectionUpdate env u s))) @ [2000])"
proof -
  let ?s' = "snd (handleConnectionUpdate env u s)"
  obtain s1 where q: "onQr env u s = (Inr (), s1)"
    using assms(2) by (cases "onQr env u s") auto
  from onQr_sameObs [of s env u] q have same: "sameObs s s1" by simp
  then have "sock s1 \<noteq> None" using assms(3) by (simp add: sameObs_def)
  from onOpen_resets [OF assms(1) this, of env] q assms(1)
  have zero: "retryCount ?s' = 0"
    by (simp add: handleConnectionUpdate_open)
  have "maxRetries ?s' = maxRetries s1"
    using q assms(1) by (simp add: handleConnectionUpdate_open onOpen_maxRetries)
  with same have mx: "maxRetries ?s' = maxRetries s" by (simp add: sameObs_def)
  have "retryCount (snd (handleConnectionUpdate env u2 ?s')) = 1 \<and>
        delays (trace (snd (handleConnectionUpdate env u2 ?s'))) = delays (trace ?s') @ [2000]"
    if "connection u2 = Some Close" "shouldReconnect env u2"
      "fst (onQr env u2 ?s') = Inr ()" "0 < maxRetries s" for u2
  proof -
    have "retryCount ?s' < maxRetries ?s'" using zero mx that(4) by simp
    from close_retry_obs [OF that(1,2,3) this] zero show ?thesis
      by (simp add: retryDelay_def)
  qed
  with zero show ?thesis by blast
qed

theorem C4_open_resets_retryCount_witness:
  "connection openUpdate = Some Open \<and> fst (onQr env0 openUpdate (ready\<lparr>retryCount := 3\<rparr>)) = Inr () \<and>
   sock (ready\<lparr>retryCount := 3\<rparr>) \<noteq> None \<and>
   retryCount (snd (handleConnectionUpdate env0 openUpdate (ready\<lparr>retryCount := 3\<rparr>))) = 0 \<and>
   retryCount (snd (handleConnectionUpdate env0 (closeOf None)
     (snd (handleConnectionUpdate env0 openUpdate (ready\<lparr>retryCount := 3\<rparr>))))) = 1"
  using C4_open_resets_retryCount [of openUpdate env0 "ready\<lparr>retryCount := 3\<rparr>"]
  by (simp add: openUpdate_def closeOf_def onQr_absent truthy_def shouldReconnect_def
      disconnectError_def ready_obs)

lemma deliverAll_append:
  "deliverAll env (xs @ ys) s = deliverAll env ys (deliverAll env xs s)"
  by (induction xs arbitrary: s) simp_all

text \<open>An update that is neither a close nor an open changes nothing that is observed here.\<close>

lemma other_update_obs:
  assumes "connection u \<noteq> Some Close" and "connection u \<noteq> Some Open"
  shows "sameObs s (snd (handleConnectionUpdate env u s))"
proof -
  have "keeps (sameObs s) (handleConnectionUpdate env u)"
    unfolding handleConnectionUpdate_def onClose_def onOpen_def using assms
    by (simp add: whenAct_False del: block.simps)
      (intro keeps_rules keeps_onQr; simp add: sameObs_def record_call_def obs_defs)
  from keepsD [OF this, of s] show ?thesis by (simp add: sameObs_def)
qed

lemma deliverAll_mixed:
  assumes "\<forall>u\<in>set us. transientClose env u \<or>
             (connection u \<noteq> Some Close \<and> connection u \<noteq> Some Open)"
    and "retryCount s + length (filter (transientClose env) us) \<le> maxRetries s"
  shows "retryCount (deliverAll env us s) =
           retryCount s + length (filter (transientClose env) us) \<and>
         maxRetries (deliverAll env us s) = maxRetries s \<and>
         telegramBridge (deliverAll env us s) = telegramBridge s \<and>
         attempts (trace (deliverAll env us s)) =
           attempts (trace s) + length (filter (transientClose env) us) \<and>
         notifications (trace (deliverAll env us s)) = notifications (trace s)"
  using assms
proof (induction us arbitrary: s)
  case Nil
  then show ?case by simp
next
  case (Cons u us)
  let ?s1 = "snd (handleConnectionUpdate env u s)"
  show ?case
  proof (cases "transientClose env u")
    case True
    with Cons.prems have u: "connection u = Some Close" "shouldReconnect env u"
      "fst (onQr env u s) = Inr ()" "retryCount s < maxRetries s"
      by (simp_all add: transientClose_def onQr_absent)
    note step = close_retry_obs [OF u]
    from Cons.prems step True
    have "\<forall>u\<in>set us. transientClose env u \<or>
        (connection u \<noteq> Some Close \<and> connection u \<noteq> Some Open)"
      and "retryCount ?s1 + length (filter (transientClose env) us) \<le> maxRetries ?s1"
      by simp_all
    from Cons.IH [OF this] step True show ?thesis by simp
  next
    case False
    with Cons.prems have "connection u \<noteq> Some Close" "connection u \<noteq> Some Open"
      by simp_all
    from other_update_obs [OF this, of s env] have step: "sameObs s ?s1" .
    from Cons.prems step False
    have "\<forall>u\<in>set us. transientClose env u \<or>
        (connection u \<noteq> Some Close \<and> connection u \<noteq> Some Open)"
      and "retryCount ?s1 + length (filter (transientClose env) us) \<le> maxRetries ?s1"
      by (simp_all add: sameObs_def)
    from Cons.IH [OF this] step False show ?thesis by (simp add: sameObs_def)
  qed
qed

lemma ceiling_result:
  assumes "transientClose env u" and "\<not> retryCount s < maxRetries s"
  shows "fst (handleConnectionUpdate env u s) = Inr () \<or>
         fst (handleConnectionUpdate env u s) = Inl (Raised (SendToAllUsers
           ''Connection lost. Max reconnection attempts reached. Please restart the bot.''))"
proof -
  from assms(1) have u: "connection u = Some Close" "shouldReconnect env u"
    "onQr env u s = (Inr (), s)"
    by (simp_all add: transientClose_def onQr_absent)
  show ?thesis
    by (simp add: handleConnectionUpdate_close [OF u(1)] u(3)
        onClose_ceiling [OF u(1,2) assms(2)] Let_def ext_def)
qed

lemma six_closes:
  assumes "retryCount s = 0" and "maxRetries s = 5"
    and "\<forall>u\<in>set us. transientClose env u \<or>
           (connection u \<noteq> Some Close \<and> connection u \<noteq> Some Open)"
    and "length (filter (transientClose env) us) = 5"
    and "transientClose env u6"
  shows "attempts (trace (deliverAll env us s)) = attempts (trace s) + 5 \<and>
         attempts (trace (deliverAll env (us @ [u6]) s)) = attempts (trace s) + 5 \<and>
         sock (deliverAll env (us @ [u6]) s) = sock (deliverAll env us s) \<and>
         notifications (trace (deliverAll env us s)) = notifications (trace s) \<and>
         notifications (trace (deliverAll env (us @ [u6]) s)) =
           notifications (trace s) + (if telegramBridge s = None then 0 else 1) \<and>
         (fst (handleConnectionUpdate env u6 (deliverAll env us s)) = Inr () \<or>
          fst (handleConnectionUpdate env u6 (deliverAll env us s)) =
            Inl (Raised (SendToAllUsers
              ''Connection lost. Max reconnection attempts reached. Please restart the bot.'')))"
proof -
  let ?s5 = "deliverAll env us s"
  from assms have "retryCount s + length (filter (transientClose env) us) \<le> maxRetries s"
    by simp
  note five = deliverAll_mixed [OF assms(3) this]
  with assms have full: "\<not> retryCount ?s5 < maxRetries ?s5" by simp
  from assms(5) have u: "connection u6 = Some Close" "fst (onQr env u6 ?s5) = Inr ()"
    by (simp_all add: transientClose_def onQr_absent)
  from full have "\<not> shouldReconnect env u6 \<or> \<not> retryCount ?s5 < maxRetries ?s5" by simp
  note sixth = close_stop_obs [OF u this]
  from five sixth assms(4) ceiling_result [OF assms(5) full] show ?thesis
    by (simp add: deliverAll_append)
qed

text \<open>
  C3, as the code has it. From \<open>retryCount = 0\<close> and \<open>maxRetries = 5\<close>, a run of updates
  none of which is an open, five of them transient closes, makes exactly five connection
  attempts and sends no notification. A further transient close makes no attempt and
  leaves \<open>sock\<close> as it is; it sends the terminal notification exactly once when a bridge
  exists and not at all when there is none, and the handler returns unless that
  notification call itself throws.
\<close>

theorem C3_retry_ceiling:
  assumes "retryCount s = 0" and "maxRetries s = 5"
    and "\<forall>u\<in>set us. transientClose env u \<or>
           (connection u \<noteq> Some Close \<and> connection u \<noteq> Some Open)"
    and "length (filter (transientClose env) us) = 5"
    and "transientClose env u6"
  shows "attempts (trace (deliverAll env us s)) = attempts (trace s) + 5 \<and>
         attempts (trace (deliverAll env (us @ [u6]) s)) = attempts (trace s) + 5 \<and>
         sock (deliverAll env (us @ [u6]) s) = sock (deliverAll env us s) \<and>
         notifications (trace (deliverAll env us s)) = notifications (trace s) \<and>
         notifications (trace (deliverAll env (us @ [u6]) s)) =
           notifications (trace s) + (if telegramBridge s = None then 0 else 1) \<and>
         (fst (handleConnectionUpdate env u6 (deliverAll env us s)) = Inr () \<or>
          fst (handleConnectionUpdate env u6 (deliverAll env us s)) =
            Inl (Raised (SendToAllUsers
              ''Connection lost. Max reconnection attempts reached. Please restart the bot.'')))"
  using assms by (rule six_closes)

lemma transientClose_unknown: "transientClose env (closeOf None)"
  by (simp add: transientClose_def closeOf_def shouldReconnect_def disconnectError_def
      truthy_def)

theorem C3_retry_ceiling_witness:
  "retryCount readyT = 0 \<and> maxRetries readyT = 5 \<and>
   length (filter (transientClose envT) (replicate 5 (closeOf None))) = 5 \<and>
   transientClose envT (closeOf None) \<and>
   attempts (trace (deliverAll envT (replicate 5 (closeOf None) @ [closeOf None]) readyT)) = 6 \<and>
   notifications
     (trace (deliverAll envT (replicate 5 (closeOf None) @ [closeOf None]) readyT)) = 1"
  using C3_retry_ceiling [of readyT "replicate 5 (closeOf None)" envT "closeOf None"]
  by (simp add: readyT_obs transientClose_unknown)

text \<open>
  With no bridge (\<open>telegram.enabled\<close> off), six transient closes in a row send no
  notification at all.
\<close>

theorem C3_no_bridge_counterexample:
  "telegramBridge ready = None \<and>
   notifications (trace (deliverAll env0
     [closeOf None, closeOf None, closeOf None, closeOf None, closeOf None, closeOf None]
     ready)) = 0"
  using six_closes [of ready
      "[closeOf None, closeOf None, closeOf None, closeOf None, closeOf None]" env0
      "closeOf None"]
  by (simp add: ready_obs transientClose_unknown)

section \<open>The bridge\<close>

lemmas bridge_defs = bridgesMade_def bridgeInits_def bridgeSetups_def

lemma bridgeInv_record:
  "bridgeInv s \<Longrightarrow> c \<noteq> NewTelegramBridge \<Longrightarrow> c \<noteq> BridgeInitialize \<Longrightarrow>
   bridgeInv (record_call c r s)"
  by (simp add: bridgeInv_def record_call_def bridge_defs)

lemma bridgeInv_fields:
  "bridgeInv (s\<lparr>sock := a\<rparr>) = bridgeInv s"
  "bridgeInv (s\<lparr>store := b\<rparr>) = bridgeInv s"
  "bridgeInv (s\<lparr>retryCount := n\<rparr>) = bridgeInv s"
  "bridgeInv (s\<lparr>db := d\<rparr>) = bridgeInv s"
  "bridgeInv (s\<lparr>messageHandler := d\<rparr>) = bridgeInv s"
  "bridgeInv (s\<lparr>moduleLoader := d\<rparr>) = bridgeInv s"
  "bridgeInv (s\<lparr>isInitialized := i\<rparr>) = bridgeInv s"
  by (simp_all add: bridgeInv_def)

lemma bridgeKept_record:
  "bridgeKept s t \<Longrightarrow> c \<noteq> NewTelegramBridge \<Longrightarrow> c \<noteq> BridgeInitialize \<Longrightarrow>
   c \<noteq> SetupWhatsAppHandlers \<Longrightarrow> bridgeKept s (record_call c r t)"
  by (simp add: bridgeKept_def record_call_def bridge_defs)

lemma bridgeKept_fields:
  "bridgeKept s (t\<lparr>sock := a\<rparr>) = bridgeKept s t"
  "bridgeKept s (t\<lparr>store := b\<rparr>) = bridgeKept s t"
  "bridgeKept s (t\<lparr>retryCount := n\<rparr>) = bridgeKept s t"
  by (simp_all add: bridgeKept_def)

lemma keeps_ensureBridge:
  "keeps bridgeInv
     (ifAct (\<lambda>s. telegramBridge s = None)
        (block [
           bindAct (extNew env NewTelegramBridge)
             (\<lambda>b. assign (\<lambda>s. s\<lparr>telegramBridge := Some b\<rparr>)),
           ext env BridgeInitialize,
           ext env SetupWhatsAppHandlers])
        (ret ()))"
  by (auto simp: keeps_def bridgeInv_def act_defs bridge_defs split: if_splits)

lemma keeps_reuseBridge:
  assumes "telegramBridge s \<noteq> None"
  shows "keeps (bridgeKept s)
     (ifAct (\<lambda>s. telegramBridge s = None)
        (block [
           bindAct (extNew env NewTelegramBridge)
             (\<lambda>b. assign (\<lambda>s. s\<lparr>telegramBridge := Some b\<rparr>)),
           ext env BridgeInitialize,
           ext env SetupWhatsAppHandlers])
        (ret ()))"
  using assms by (auto simp: keeps_def bridgeKept_def act_defs)

lemma bridgeInv_handleConnectionUpdate: "keeps bridgeInv (handleConnectionUpdate env u)"
  unfolding run_defs
  by (intro keeps_ensureBridge keeps_rules)
    (simp_all add: bridgeInv_record bridgeInv_fields)

lemma bridgeKept_handleConnectionUpdate:
  "telegramBridge s \<noteq> None \<Longrightarrow> keeps (bridgeKept s) (handleConnectionUpdate env u)"
  unfolding run_defs
  by (intro keeps_reuseBridge keeps_rules)
    (simp_all add: bridgeKept_record bridgeKept_fields)

lemma bridgeInv_step: "bridgeInv s \<Longrightarrow> bridgeInv (step env x s)"
proof (cases x)
  case OpInitialize
  have "keeps bridgeInv (initialize env)"
    unfolding run_defs
    by (intro keeps_rules) (simp_all add: bridgeInv_record bridgeInv_fields)
  from keepsD [OF this] OpInitialize show "bridgeInv s \<Longrightarrow> ?thesis" by simp
next
  case (OpProcess events)
  have "keeps bridgeInv (processEvents env events)"
    unfolding processEvents_def dispatch_def lookupPicture_def onContact_def
    by (intro bridgeInv_handleConnectionUpdate keeps_rules)
      (simp_all add: bridgeInv_record bridgeInv_fields)
  from keepsD [OF this] OpProcess show "bridgeInv s \<Longrightarrow> ?thesis" by simp
next
  case (OpSendMessage j)
  have "keeps bridgeInv (sendMessage env j)"
    unfolding sendMessage_def
    by (intro keeps_rules) (simp_all add: bridgeInv_record bridgeInv_fields)
  from keepsD [OF this] OpSendMessage show "bridgeInv s \<Longrightarrow> ?thesis" by simp
next
  case OpShutdown
  have "keeps bridgeInv (shutdown env)"
    unfolding shutdown_def
    by (intro keeps_rules) (simp_all add: bridgeInv_record bridgeInv_fields)
  from keepsD [OF this] OpShutdown show "bridgeInv s \<Longrightarrow> ?thesis" by simp
qed

lemma bridgeInv_run: "bridgeInv s \<Longrightarrow> bridgeInv (run env ops s)"
  by (induction ops arbitrary: s) (simp_all add: bridgeInv_step)

lemma bridgeInv_constructor: "bridgeInv constructor"
  by (simp add: bridgeInv_def constructor_def bridge_defs)

lemma open_quiet_calls:
  assumes "\<forall>tr c. \<not> throws env tr c" and "telegram_enabled env"
    and "connection u = Some Open" and "\<not> truthy (qr u)"
    and "sock s \<noteq> None" and "moduleLoader s \<noteq> None"
  shows "fst (handleConnectionUpdate env u s) = Inr () \<and>
         telegramBridge (snd (handleConnectionUpdate env u s)) \<noteq> None \<and>
         calls (trace (snd (handleConnectionUpdate env u s))) =
           calls (trace s) @
           [Logger LInfo ''WhatsApp connection opened successfully'',
            Logger LInfo ''Connected as:  ()'', LoadModules, ConfigGet ''telegram.enabled''] @
           (if telegramBridge s = None
            then [NewTelegramBridge, BridgeInitialize, SetupWhatsAppHandlers] else []) @
           [SyncContacts, UpdateTopicNames, SendStartMessage]"
proof -
  from assms(5,6) obtain h l where "sock s = Some h" "moduleLoader s = Some l" by auto
  with assms(1,2,3) show ?thesis
    by (simp add: handleConnectionUpdate_open onQr_absent [OF assms(4)] onOpen_def act_defs
        calls_def)
qed

text \<open>
  C5. In every run of the bot from its constructor, whatever the collaborators do, at most
  one \<open>new TelegramBridge\<close> returns and \<open>initialize\<close> is called on the bridge at most
  once. Once a bridge exists, no connection update replaces, constructs or initialises
  one, or sets its handlers up again. When the bridge is configured and no call throws, an
  open event on a bot without a bridge constructs it, initialises it, sets its handlers up
  and then runs the three sync steps; on a bot with a bridge it runs the three sync steps
  only.
\<close>

theorem C5_bridge_constructed_once:
  "bridgesMade (trace (run env ops constructor)) \<le> 1 \<and>
   bridgeInits (trace (run env ops constructor)) \<le> 1 \<and>
   (telegramBridge s \<noteq> None \<longrightarrow> bridgeKept s (snd (handleConnectionUpdate env u s))) \<and>
   ((\<forall>tr c. \<not> throws env tr c) \<and> telegram_enabled env \<and> connection u = Some Open \<and>
    \<not> truthy (qr u) \<and> sock s \<noteq> None \<and> moduleLoader s \<noteq> None \<longrightarrow>
      telegramBridge (snd (handleConnectionUpdate env u s)) \<noteq> None \<and>
      calls (trace (snd (handleConnectionUpdate env u s))) =
        calls (trace s) @
        [Logger LInfo ''WhatsApp connection opened successfully'',
         Logger LInfo ''Connected as:  ()'', LoadModules, ConfigGet ''telegram.enabled''] @
        (if telegramBridge s = None
         then [NewTelegramBridge, BridgeInitialize, SetupWhatsAppHandlers] else []) @
        [SyncContacts, UpdateTopicNames, SendStartMessage])"
proof -
  have "bridgeInv (run env ops constructor)"
    by (rule bridgeInv_run [OF bridgeInv_constructor])
  then have "bridgesMade (trace (run env ops constructor)) \<le> 1 \<and>
     bridgeInits (trace (run env ops constructor)) \<le> 1"
    by (cases "telegramBridge (run env ops constructor)") (simp_all add: bridgeInv_def)
  moreover have "bridgeKept s (snd (handleConnectionUpdate env u s))"
    if "telegramBridge s \<noteq> None"
    using keepsD [OF bridgeKept_handleConnectionUpdate [OF that], of s env u]
    by (simp add: bridgeKept_def)
  ultimately show ?thesis
    using open_quiet_calls [of env u s] by blast
qed

theorem C5_bridge_constructed_once_witness:
  "telegramBridge readyT \<noteq> None \<and>
   telegram_enabled envT \<and> connection openUpdate = Some Open \<and>
   \<not> truthy (qr openUpdate) \<and> sock readyT \<noteq> None \<and> moduleLoader readyT \<noteq> None \<and>
   bridgeKept readyT (snd (handleConnectionUpdate envT openUpdate readyT)) \<and>
   calls (trace (snd (handleConnectionUpdate envT openUpdate readyT))) =
     calls (trace readyT) @
     [Logger LInfo ''WhatsApp connection opened successfully'',
      Logger LInfo ''Connected as:  ()'', LoadModules, ConfigGet ''telegram.enabled'',
      SyncContacts, UpdateTopicNames, SendStartMessage]"
  using C5_bridge_constructed_once [of envT "[]" readyT openUpdate]
  by (simp add: readyT_obs envT_def env0_def openUpdate_def truthy_def)

section \<open>The event router\<close>

lemma block_abort:
  "block xs s = (Inr (), s1) \<Longrightarrow> m s1 = (Inl e, s2) \<Longrightarrow> block (xs @ m # ys) s = (Inl e, s2)"
proof (induction xs arbitrary: s)
  case Nil
  then show ?case by (simp add: thenAct_def bindAct_def ret_def)
next
  case (Cons x xs)
  obtain r t where x: "x s = (r, t)" by (cases "x s")
  with Cons.prems(1) have r: "r = Inr ()" and rest: "block xs t = (Inr (), s1)"
    by (auto simp: thenAct_def bindAct_def split: sum.splits)
  from Cons.IH [OF rest Cons.prems(2)] x r show ?case
    by (simp add: thenAct_def bindAct_def)
qed

text \<open>
  C6, as the code has it. The dispatcher runs the statements of the kinds one after
  another with no handler around any of them: when the statement of one kind throws, after
  the statements before it have returned, the dispatcher ends with that error in the state
  of the throw, so that no statement of a later kind runs and the router logs nothing.
\<close>

theorem C6_failure_aborts_batch:
  assumes "i < length (dispatch env events)"
    and "block (take i (dispatch env events)) s = (Inr (), s1)"
    and "(dispatch env events ! i) s1 = (Inl e, s2)"
  shows "processEvents env events s = (Inl e, s2)"
proof -
  have "dispatch env events =
      take i (dispatch env events) @ (dispatch env events ! i) # drop (Suc i) (dispatch env events)"
    using assms(1) by (rule id_take_nth_drop)
  then have "processEvents env events s =
      block (take i (dispatch env events) @ (dispatch env events ! i) #
        drop (Suc i) (dispatch env events)) s"
    by (simp add: processEvents_def)
  also have "\<dots> = (Inl e, s2)"
    using assms(2,3) by (rule block_abort)
  finally show ?thesis .
qed

theorem C6_failure_aborts_batch_witness:
  "(1::nat) < length (dispatch envSave (emptyBatch\<lparr>creds_update := Some 0, messages_upsert := Some 7\<rparr>)) \<and>
   block (take 1 (dispatch envSave (emptyBatch\<lparr>creds_update := Some 0, messages_upsert := Some 7\<rparr>)))
     ready = (Inr (), ready) \<and>
   (dispatch envSave (emptyBatch\<lparr>creds_update := Some 0, messages_upsert := Some 7\<rparr>) ! 1) ready
     = (Inl (Raised SaveCreds), record_call SaveCreds Thrown ready) \<and>
   processEvents envSave (emptyBatch\<lparr>creds_update := Some 0, messages_upsert := Some 7\<rparr>) ready
     = (Inl (Raised SaveCreds), record_call SaveCreds Thrown ready)"
  using C6_failure_aborts_batch [of 1 envSave
      "emptyBatch\<lparr>creds_update := Some 0, messages_upsert := Some 7\<rparr>" ready ready
      "Raised SaveCreds" "record_call SaveCreds Thrown ready"]
  by (simp add: dispatch_def emptyBatch_def present_def envSave_def act_defs)

text \<open>
  A batch with a credential update and an inbound-message batch, when \<open>saveCreds\<close> throws:
  the dispatcher ends with that error after the one failed call; \<open>handleMessages\<close> is not
  called and nothing is logged.
\<close>

theorem C6_no_isolation_counterexample:
  "creds_update (emptyBatch\<lparr>creds_update := Some 0, messages_upsert := Some 7\<rparr>) = Some 0 \<and>
   messages_upsert (emptyBatch\<lparr>creds_update := Some 0, messages_upsert := Some 7\<rparr>) = Some 7 \<and>
   processEvents envSave (emptyBatch\<lparr>creds_update := Some 0, messages_upsert := Some 7\<rparr>) ready
     = (Inl (Raised SaveCreds), ready\<lparr>trace := trace ready @ [(SaveCreds, Thrown)]\<rparr>)"
  by (simp add: processEvents_def dispatch_def emptyBatch_def present_def envSave_def act_defs)

lemma open_quiet_off:
  assumes "\<forall>tr c. \<not> throws env tr c" and "\<not> telegram_enabled env"
    and "connection u = Some Open" and "\<not> truthy (qr u)"
    and "sock s \<noteq> None" and "moduleLoader s \<noteq> None"
  shows "handleConnectionUpdate env u s =
     (Inr (), s\<lparr>retryCount := 0, trace := trace s @
        [(Logger LInfo ''WhatsApp connection opened successfully'', Returned),
         (Logger LInfo ''Connected as:  ()'', Returned), (LoadModules, Returned),
         (ConfigGet ''telegram.enabled'', Returned)]\<rparr>)"
proof -
  from assms(5,6) obtain h l where "sock s = Some h" "moduleLoader s = Some l" by auto
  with assms(1,2,3) show ?thesis
    by (simp add: handleConnectionUpdate_open onQr_absent [OF assms(4)] onOpen_def act_defs)
qed

lemma keeps_block_all: "(\<And>m. m \<in> set ms \<Longrightarrow> keeps P m) \<Longrightarrow> keeps P (block ms)"
  by (induction ms) (simp_all add: keeps_ret keeps_then)

text \<open>No statement of the dispatcher removes a call from the trace.\<close>

lemma dispatch_extends:
  assumes "m \<in> set (dispatch env events)"
  shows "keeps (\<lambda>t. \<exists>r. trace t = tr0 @ r) m"
proof -
  have "list_all (keeps (\<lambda>t. \<exists>r. trace t = tr0 @ r)) (dispatch env events)"
    unfolding dispatch_def run_defs lookupPicture_def onContact_def list.pred_inject
    by (intro conjI keeps_rules TrueI) (auto simp: record_call_def)
  with assms show ?thesis by (simp add: list_all_iff)
qed

lemma dispatch_head:
  "dispatch env events =
     (case connection_update events of
        None \<Rightarrow> ret ()
      | Some u \<Rightarrow> handleConnectionUpdate env u) #
     whenAct (present (creds_update events)) (ext env SaveCreds) #
     drop 2 (dispatch env events)"
  by (simp add: dispatch_def)

text \<open>
  C8, as the code has it. In a batch with a credential update, the connection-state update
  of the same batch, when there is one, is handled first: if that throws, \<open>saveCreds\<close> is
  not called at all; if it returns (or the batch has none), \<open>saveCreds\<close> is the next call,
  before the statement of any other kind, and if it throws nothing follows it.
\<close>

theorem C8_creds_after_connection_update:
  assumes "creds_update events \<noteq> None"
    and "(case connection_update events of
            None \<Rightarrow> ret ()
          | Some u \<Rightarrow> handleConnectionUpdate env u) s = (r, s1)"
  shows "case r of
           Inl e \<Rightarrow> processEvents env events s = (Inl e, s1)
         | Inr x \<Rightarrow>
             (\<exists>rest. trace (snd (processEvents env events s)) =
                 trace s1 @
                 (SaveCreds, if throws env (trace s1) SaveCreds then Thrown else Returned) # rest \<and>
               (throws env (trace s1) SaveCreds \<longrightarrow> rest = []))"
proof -
  let ?others = "drop 2 (dispatch env events)"
  have pe: "processEvents env events =
      block ((case connection_update events of
                None \<Rightarrow> ret ()
              | Some u \<Rightarrow> handleConnectionUpdate env u) #
             whenAct (present (creds_update events)) (ext env SaveCreds) # ?others)"
    unfolding processEvents_def by (rule arg_cong [OF dispatch_head])
  show ?thesis
  proof (cases r)
    case (Inl e)
    with assms(2) show ?thesis
      by (simp add: pe thenAct_def bindAct_def)
  next
    case (Inr x)
    have run: "processEvents env events s =
        block (whenAct True (ext env SaveCreds) # ?others) s1"
      using assms Inr by (simp add: pe thenAct_def bindAct_def present_def)
    show ?thesis
    proof (cases "throws env (trace s1) SaveCreds")
      case True
      with run Inr show ?thesis
        by (simp add: whenAct_True thenAct_def bindAct_def ext_def record_call_def)
    next
      case False
      let ?s2 = "record_call SaveCreds Returned s1"
      have "keeps (\<lambda>t. \<exists>r. trace t = trace ?s2 @ r) (block ?others)"
        by (rule keeps_block_all) (auto dest: in_set_dropD intro: dispatch_extends)
      from keepsD [OF this, of ?s2]
      obtain rest where "trace (snd (block ?others ?s2)) = trace ?s2 @ rest" by auto
      with run Inr False show ?thesis
        by (simp add: whenAct_True thenAct_def bindAct_def ext_def record_call_def)
    qed
  qed
qed

theorem C8_creds_after_connection_update_witness:
  "creds_update (emptyBatch\<lparr>connection_update := Some openUpdate, creds_update := Some 0\<rparr>) \<noteq> None \<and>
   (\<exists>rest. trace (snd (processEvents env0
        (emptyBatch\<lparr>connection_update := Some openUpdate, creds_update := Some 0\<rparr>) ready)) =
      trace (snd (handleConnectionUpdate env0 openUpdate ready)) @ (SaveCreds, Returned) # rest)"
  using C8_creds_after_connection_update [of
      "emptyBatch\<lparr>connection_update := Some openUpdate, creds_update := Some 0\<rparr>" env0 ready
      "fst (handleConnectionUpdate env0 openUpdate ready)"
      "snd (handleConnectionUpdate env0 openUpdate ready)"]
    open_quiet_off [of env0 openUpdate ready]
  by (simp add: emptyBatch_def env0_def openUpdate_def truthy_def ready_obs)

text \<open>
  A batch with an open event and a credential update: the modules are loaded, as part of
  handling the open event, before \<open>saveCreds\<close> is called.
\<close>

theorem C8_connection_update_first_counterexample:
  "trace (snd (processEvents env0
      (emptyBatch\<lparr>connection_update := Some openUpdate, creds_update := Some 0\<rparr>) ready)) =
   trace ready @
     [(Logger LInfo ''WhatsApp connection opened successfully'', Returned),
      (Logger LInfo ''Connected as:  ()'', Returned), (LoadModules, Returned),
      (ConfigGet ''telegram.enabled'', Returned), (SaveCreds, Returned)]"
proof -
  have "handleConnectionUpdate env0 openUpdate ready =
     (Inr (), ready\<lparr>retryCount := 0, trace := trace ready @
        [(Logger LInfo ''WhatsApp connection opened successfully'', Returned),
         (Logger LInfo ''Connected as:  ()'', Returned), (LoadModules, Returned),
         (ConfigGet ''telegram.enabled'', Returned)]\<rparr>)"
    by (rule open_quiet_off) (simp_all add: env0_def openUpdate_def truthy_def ready_obs)
  then show ?thesis
    by (simp add: processEvents_def dispatch_def emptyBatch_def present_def env0_def act_defs)
qed

section \<open>shutdown and sendMessage\<close>

text \<open>
  C7, as the code has it. \<open>shutdown\<close> never throws. It calls the bridge's \<open>shutdown\<close>
  first, if a bridge exists, and \<open>sock.end()\<close> after it, if a socket exists. The two
  calls are in one \<open>try\<close>: the first of them that throws is logged and ends the teardown,
  so that a failure of the bridge's \<open>shutdown\<close> leaves \<open>sock.end()\<close> uncalled.
\<close>

theorem C7_shutdown_stops_at_first_failure:
  "fst (shutdown env s) = Inr () \<and>
   trace (snd (shutdown env s)) =
     trace s @ (Logger LInfo ''Shutting down HyperWa Bot...'', Returned) #
       (if telegramBridge s \<noteq> None \<and>
           throws env (trace s @ [(Logger LInfo ''Shutting down HyperWa Bot...'', Returned)])
             BridgeShutdown
        then [(BridgeShutdown, Thrown), (Logger LError ''Error during shutdown:'', Returned)]
        else (if telegramBridge s \<noteq> None then [(BridgeShutdown, Returned)] else []) @
          (case sock s of
             None \<Rightarrow> [(Logger LInfo ''HyperWa Bot shutdown complete'', Returned)]
           | Some h \<Rightarrow>
               if throws env
                    (trace s @ (Logger LInfo ''Shutting down HyperWa Bot...'', Returned) #
                       (if telegramBridge s \<noteq> None then [(BridgeShutdown, Returned)] else []))
                    (SockEnd h)
               then [(SockEnd h, Thrown), (Logger LError ''Error during shutdown:'', Returned)]
               else [(SockEnd h, Returned),
                     (Logger LInfo ''HyperWa Bot shutdown complete'', Returned)]))"
  by (cases "sock s") (simp_all add: shutdown_def act_defs)

text \<open>
  With a bridge whose \<open>shutdown\<close> throws, \<open>shutdown\<close> logs the error and returns without
  calling \<open>end\<close> on the socket it holds.
\<close>

theorem C7_socket_left_open_counterexample:
  "sock readyT = Some 14 \<and> telegramBridge readyT = Some 23 \<and>
   shutdown envBridge readyT =
     (Inr (), readyT\<lparr>trace := trace readyT @
        [(Logger LInfo ''Shutting down HyperWa Bot...'', Returned),
         (BridgeShutdown, Thrown),
         (Logger LError ''Error during shutdown:'', Returned)]\<rparr>)"
  by (simp add: shutdown_def act_defs envBridge_def readyT_obs)

text \<open>
  C9, as the code has it. \<open>sendMessage\<close> fails with "WhatsApp socket not initialized",
  logged and thrown to the caller without any call on a handle, exactly when the bot holds
  no socket. When it holds one, open or not, it forwards to it once: the result is
  returned, an error is logged and thrown to the caller, and nothing is retried.
\<close>

theorem C9_sendMessage_forwards_to_held_socket:
  "(sock s = None \<longrightarrow>
      sendMessage env j s =
        (Inl (Error ''WhatsApp socket not initialized''),
         s\<lparr>trace := trace s @ [(Logger LError ''Failed to send message:'', Returned)]\<rparr>)) \<and>
   (sock s = Some h \<longrightarrow>
      sendMessage env j s =
        (if throws env (trace s) (SockSendMessage h j)
         then (Inl (Raised (SockSendMessage h j)),
               s\<lparr>trace := trace s @
                  [(SockSendMessage h j, Thrown),
                   (Logger LError ''Failed to send message:'', Returned)]\<rparr>)
         else (Inr (), s\<lparr>trace := trace s @ [(SockSendMessage h j, Returned)]\<rparr>)))"
  by (simp add: sendMessage_def act_defs)

theorem C9_sendMessage_forwards_to_held_socket_witness:
  "sock constructor = None \<and> sock ready = Some 14 \<and>
   fst (sendMessage env0 ''a@s.whatsapp.net'' constructor) =
     Inl (Error ''WhatsApp socket not initialized'') \<and>
   sendMessage env0 ''a@s.whatsapp.net'' ready =
     (Inr (), ready\<lparr>trace := trace ready @
        [(SockSendMessage 14 ''a@s.whatsapp.net'', Returned)]\<rparr>)"
  using C9_sendMessage_forwards_to_held_socket
      [where s = constructor and env = env0 and j = "''a@s.whatsapp.net''" and h = 0]
    C9_sendMessage_forwards_to_held_socket
      [where s = ready and env = env0 and j = "''a@s.whatsapp.net''" and h = 14]
  by (simp add: constructor_def ready_obs env0_def)

text \<open>
  After \<open>shutdown\<close> has ended the only handle, \<open>sendMessage\<close> still forwards to it: the
  error the caller gets is the one the ended handle throws.
\<close>

lemma shutdown_ready:
  "snd (shutdown envEnded ready) =
     ready\<lparr>trace := trace ready @
        [(Logger LInfo ''Shutting down HyperWa Bot...'', Returned),
         (SockEnd 14, Returned),
         (Logger LInfo ''HyperWa Bot shutdown complete'', Returned)]\<rparr>"
  by (simp add: shutdown_def act_defs envEnded_def env0_def ready_obs)

theorem C9_ended_handle_counterexample:
  "sock (snd (shutdown envEnded ready)) = Some 14 \<and>
   ended (trace (snd (shutdown envEnded ready))) 14 \<and>
   sendMessage envEnded ''a@s.whatsapp.net'' (snd (shutdown envEnded ready)) =
     (Inl (Raised (SockSendMessage 14 ''a@s.whatsapp.net'')),
      (snd (shutdown envEnded ready))\<lparr>trace := trace (snd (shutdown envEnded ready)) @
         [(SockSendMessage 14 ''a@s.whatsapp.net'', Thrown),
          (Logger LError ''Failed to send message:'', Returned)]\<rparr>)"
  unfolding shutdown_ready
  by (simp add: sendMessage_def act_defs envEnded_def env0_def ready_obs ended_def)

section \<open>The session store\<close>

lemma tryCatch_rethrow_returns:
  assumes "fst (tryCatch m (\<lambda>e. thenAct (logger l t) (throw e)) s) = Inr x"
  shows "tryCatch m (\<lambda>e. thenAct (logger l t) (throw e)) s = m s"
  using assms by (cases "m s") (auto simp: act_defs split: sum.splits)

lemma block_ext:
  "block (ext env c # ms) s =
     (if throws env (trace s) c then (Inl (Raised c), record_call c Thrown s)
      else block ms (record_call c Returned s))"
  by (simp add: thenAct_def bindAct_def ext_def)

lemma block_logger:
  "block (logger l t # ms) s = block ms (record_call (Logger l t) Returned s)"
  by (simp add: thenAct_def bindAct_def logger_def perform_def)

lemma block_assign: "block (assign f # ms) s = block ms (f s)"
  by (simp add: thenAct_def bindAct_def assign_def)

lemma block_new:
  "block (bindAct (extNew env c) (\<lambda>h. assign (f h)) # ms) s =
     (if throws env (trace s) c then (Inl (Raised c), record_call c Thrown s)
      else block ms (f (length (trace s)) (record_call c Returned s)))"
  by (simp add: thenAct_def bindAct_def extNew_def assign_def)

lemma block_if:
  "block ((if b then m else n) # ms) s = (if b then block (m # ms) s else block (n # ms) s)"
  by simp

lemma block_ifAct:
  "block (ifAct c m n # ms) s = (if c s then block (m # ms) s else block (n # ms) s)"
  by (simp add: thenAct_def bindAct_def ifAct_def)

lemma block_throw: "block (throw e # ms) s = (Inl e, s)"
  by (simp add: thenAct_def bindAct_def throw_def)

lemma block_reads: "block (bindAct (reads f) g # ms) s = block (g (f s) # ms) s"
  by (simp add: thenAct_def bindAct_def reads_def)

lemma block_append: "block (xs @ ys) s = thenAct (block xs) (block ys) s"
proof (induction xs arbitrary: s)
  case Nil
  show ?case by (simp add: thenAct_def bindAct_def ret_def)
next
  case (Cons x xs)
  then show ?case
    by (simp add: thenAct_def bindAct_def split: prod.splits sum.splits)
qed

lemma block_block: "block (block xs # ms) s = block (xs @ ms) s"
  by (simp add: block_append)

lemma block_end: "block [] s = (Inr (), s)"
  by (simp add: ret_def)

lemmas block_steps =
  block_ext block_logger block_assign block_new block_if block_ifAct block_throw block_reads
  block_block block_end

lemma record_call_fields:
  "sock (record_call c r s) = sock s"
  "store (record_call c r s) = store s"
  "telegramBridge (record_call c r s) = telegramBridge s"
  "retryCount (record_call c r s) = retryCount s"
  "maxRetries (record_call c r s) = maxRetries s"
  "moduleLoader (record_call c r s) = moduleLoader s"
  "messageHandler (record_call c r s) = messageHandler s"
  by (simp_all add: record_call_def)

lemma fst_if_thrown:
  "(fst (if c then (Inl e, t) else X) = Inr ()) = (\<not> c \<and> fst X = Inr ())"
  by simp

lemma startConnection_returns:
  assumes "fst (startConnection env s) = Inr ()"
  shows "snd (startConnection env s) =
     s\<lparr>store := Some makeInMemoryStore, sock := Some (length (trace s) + 9),
       trace := trace s @
         [(ConfigGet ''auth.useMongoAuth'', Returned),
          (ConfigGet ''auth.clearAuthOnStart'', Returned),
          (Logger LInfo (if useMongoAuth env then ''Using MongoDB authentication state''
             else ''Using file-based authentication state''), Returned),
          (if useMongoAuth env then UseMongoAuthState else UseMultiFileAuthState ''auth_info'',
           Returned),
          (FetchLatestBaileysVersion, Returned),
          (Logger LInfo ''Using WA v, isLatest: '', Returned),
          (MakeInMemoryStore, Returned),
          (MakeCacheableSignalKeyStore, Returned),
          (ConfigGet ''telegram.enabled'', Returned),
          (MakeWASocket, Returned),
          (StoreBind (length (trace s) + 9), Returned),
          (EvProcess (length (trace s) + 9), Returned),
          (Logger LInfo ''WhatsApp connection started'', Returned)]\<rparr>"
proof -
  note eq = tryCatch_rethrow_returns
    [OF assms [unfolded startConnection_def setupEventHandlers_def]]
  from assms show ?thesis
    unfolding startConnection_def setupEventHandlers_def eq
    apply (cases "useMongoAuth env")
     apply (simp_all only: if_True if_False)
     apply (simp_all add: block_steps fst_if_thrown record_call_fields del: block.simps)
     apply (simp_all add: record_call_def)
    done
qed

lemma storesMade_record:
  "storesMade (trace (record_call c r s)) =
     (if (c, r) = (MakeInMemoryStore, Returned) then Suc (storesMade (trace s))
      else storesMade (trace s))"
  by (simp add: storesMade_def record_call_def)

lemma snd_tryCatch_log:
  "snd (tryCatch m (\<lambda>e. thenAct (logger l t) (throw e)) s) =
     (case fst (m s) of
        Inl e \<Rightarrow> record_call (Logger l t) Returned (snd (m s))
      | Inr x \<Rightarrow> snd (m s))"
  by (cases "m s") (simp add: act_defs split: sum.splits)

text \<open>
  A call of \<open>startConnection\<close> either leaves \<open>store\<close> alone, no \<open>makeInMemoryStore\<close> having
  returned, or has put a new empty store there.
\<close>

lemma startConnection_store:
  "(storesMade (trace (snd (startConnection env s))) = storesMade (trace s) \<and>
    store (snd (startConnection env s)) = store s) \<or>
   (storesMade (trace (snd (startConnection env s))) = Suc (storesMade (trace s)) \<and>
    store (snd (startConnection env s)) = Some makeInMemoryStore)"
  unfolding startConnection_def setupEventHandlers_def snd_tryCatch_log
  by (cases "useMongoAuth env")
    (simp_all add: block_steps record_call_fields storesMade_record if_distrib [of fst]
      if_distrib [of snd] del: block.simps split: if_splits)

section \<open>Claims about the session store\<close>

lemma fresh_store_lookups:
  assumes "store t = Some makeInMemoryStore"
  shows "getMessage t key =
           (if remoteJid key \<in> set objectPrototypeMembers then Inl TypeError else Inr None)"
    and "getContactInfo t j =
           (if j = [] then Null
            else if j \<in> set objectPrototypeMembers then Val (Inherited j) else Undefined)"
  using assms
  by (simp_all add: getMessage_def getContactInfo_def loadMessage_def readProperty_def
      makeInMemoryStore_def)

lemma startConnection_env0:
  "fst (startConnection env0 s) = Inr ()"
  unfolding startConnection_def setupEventHandlers_def
  by (simp add: block_steps tryCatch_def env0_def record_call_fields del: block.simps)

lemma startConnection_returns_made:
  assumes "fst (startConnection env s) = Inr ()"
  shows "storesMade (trace (snd (startConnection env s))) = Suc (storesMade (trace s))"
  by (simp add: startConnection_returns [OF assms] storesMade_def)

lemma onQr_storesMade: "storesMade (trace (snd (onQr env u s))) = storesMade (trace s)"
proof -
  have "keeps (\<lambda>t. storesMade (trace t) = storesMade (trace s)) (onQr env u)"
    by (rule keeps_onQr) (simp_all add: storesMade_record)
  from keepsD [OF this, of s] show ?thesis by simp
qed

text \<open>A reconnecting close handler is a call of \<open>startConnection\<close> on the same store.\<close>

lemma reconnect_is_start:
  assumes "connection u = Some Close" and "shouldReconnect env u"
    and "fst (onQr env u s) = Inr ()" and "retryCount s < maxRetries s"
  shows "\<exists>s2. handleConnectionUpdate env u s = startConnection env s2 \<and>
           store s2 = store s \<and> storesMade (trace s2) = storesMade (trace s)"
proof -
  obtain s1 where q: "onQr env u s = (Inr (), s1)"
    using assms(3) by (cases "onQr env u s") auto
  from onQr_sameObs [of s env u] q have same: "sameObs s s1" by simp
  then have lt: "retryCount s1 < maxRetries s1"
    using assms(4) by (simp add: sameObs_def)
  from onQr_storesMade [of env u s] q
  have made: "storesMade (trace s1) = storesMade (trace s)" by simp
  let ?s2 = "s1\<lparr>retryCount := Suc (retryCount s1),
       trace := trace s1 @
         [(Logger LInfo ''Connection closed due to , reconnecting: '', Returned),
          (Logger LInfo ''Reconnecting in  seconds (attempt /)...'', Returned),
          (Delay (retryDelay (Suc (retryCount s1))), Returned)]\<rparr>"
  have "handleConnectionUpdate env u s = startConnection env ?s2"
    using q assms(1) by (simp add: handleConnectionUpdate_close onClose_retry [OF assms(1,2) lt])
  moreover have "store ?s2 = store s"
    using same by (simp add: sameObs_def)
  moreover have "storesMade (trace ?s2) = storesMade (trace s)"
    using made by (simp add: storesMade_def)
  ultimately show ?thesis by blast
qed

text \<open>
  C10, as the code has it. A call of \<open>startConnection\<close> in which \<open>makeInMemoryStore\<close> has
  returned, as it has in every call that returns, has replaced \<open>store\<close> by a new, empty
  in-memory store, made before the new socket and bound to that socket's event stream;
  \<open>getMessage\<close> and \<open>getContactInfo\<close> then give what an empty store gives and nothing of
  what the store held before. A call that throws before \<open>makeInMemoryStore\<close> has returned
  leaves \<open>store\<close> as it was. The same holds of every reconnect after a transient close.
\<close>

theorem C10_store_replaced_when_reached:
  "((storesMade (trace (snd (startConnection env s))) = storesMade (trace s) \<and>
     store (snd (startConnection env s)) = store s) \<or>
    (storesMade (trace (snd (startConnection env s))) = Suc (storesMade (trace s)) \<and>
     store (snd (startConnection env s)) = Some makeInMemoryStore \<and>
     (\<forall>key. getMessage (snd (startConnection env s)) key =
        (if remoteJid key \<in> set objectPrototypeMembers then Inl TypeError else Inr None)) \<and>
     (\<forall>j. getContactInfo (snd (startConnection env s)) j =
        (if j = [] then Null
         else if j \<in> set objectPrototypeMembers then Val (Inherited j) else Undefined)))) \<and>
   (fst (startConnection env s) = Inr () \<longrightarrow>
      storesMade (trace (snd (startConnection env s))) = Suc (storesMade (trace s)) \<and>
      sock (snd (startConnection env s)) = Some (length (trace s) + 9) \<and>
      (\<exists>pre. trace (snd (startConnection env s)) =
         trace s @ pre @
         [(MakeInMemoryStore, Returned),
          (MakeCacheableSignalKeyStore, Returned),
          (ConfigGet ''telegram.enabled'', Returned),
          (MakeWASocket, Returned),
          (StoreBind (length (trace s) + 9), Returned),
          (EvProcess (length (trace s) + 9), Returned),
          (Logger LInfo ''WhatsApp connection started'', Returned)])) \<and>
   (connection u = Some Close \<and> shouldReconnect env u \<and> fst (onQr env u s) = Inr () \<and>
    retryCount s < maxRetries s \<longrightarrow>
      ((storesMade (trace (snd (handleConnectionUpdate env u s))) = storesMade (trace s) \<and>
        store (snd (handleConnectionUpdate env u s)) = store s) \<or>
       (storesMade (trace (snd (handleConnectionUpdate env u s))) =
          Suc (storesMade (trace s)) \<and>
        store (snd (handleConnectionUpdate env u s)) = Some makeInMemoryStore \<and>
        (\<forall>key. getMessage (snd (handleConnectionUpdate env u s)) key =
           (if remoteJid key \<in> set objectPrototypeMembers then Inl TypeError
            else Inr None)) \<and>
        (\<forall>j. getContactInfo (snd (handleConnectionUpdate env u s)) j =
           (if j = [] then Null
            else if j \<in> set objectPrototypeMembers then Val (Inherited j)
            else Undefined)))) \<and>
      (fst (handleConnectionUpdate env u s) = Inr () \<longrightarrow>
         storesMade (trace (snd (handleConnectionUpdate env u s))) =
           Suc (storesMade (trace s))))"
proof -
  have start: "(storesMade (trace (snd (startConnection env t))) = storesMade (trace t) \<and>
      store (snd (startConnection env t)) = store t) \<or>
     (storesMade (trace (snd (startConnection env t))) = Suc (storesMade (trace t)) \<and>
      store (snd (startConnection env t)) = Some makeInMemoryStore \<and>
      (\<forall>key. getMessage (snd (startConnection env t)) key =
         (if remoteJid key \<in> set objectPrototypeMembers then Inl TypeError else Inr None)) \<and>
      (\<forall>j. getContactInfo (snd (startConnection env t)) j =
         (if j = [] then Null
          else if j \<in> set objectPrototypeMembers then Val (Inherited j) else Undefined)))"
    for t
    using startConnection_store [of env t] fresh_store_lookups [of "snd (startConnection env t)"]
    by blast
  have returns: "storesMade (trace (snd (startConnection env s))) = Suc (storesMade (trace s)) \<and>
      sock (snd (startConnection env s)) = Some (length (trace s) + 9) \<and>
      (\<exists>pre. trace (snd (startConnection env s)) =
         trace s @ pre @
         [(MakeInMemoryStore, Returned),
          (MakeCacheableSignalKeyStore, Returned),
          (ConfigGet ''telegram.enabled'', Returned),
          (MakeWASocket, Returned),
          (StoreBind (length (trace s) + 9), Returned),
          (EvProcess (length (trace s) + 9), Returned),
          (Logger LInfo ''WhatsApp connection started'', Returned)])"
    if ok: "fst (startConnection env s) = Inr ()"
  proof -
    note eq = startConnection_returns [OF ok]
    have "trace (snd (startConnection env s)) =
        trace s @
        [(ConfigGet ''auth.useMongoAuth'', Returned),
         (ConfigGet ''auth.clearAuthOnStart'', Returned),
         (Logger LInfo (if useMongoAuth env then ''Using MongoDB authentication state''
            else ''Using file-based authentication state''), Returned),
         (if useMongoAuth env then UseMongoAuthState else UseMultiFileAuthState ''auth_info'',
          Returned),
         (FetchLatestBaileysVersion, Returned),
         (Logger LInfo ''Using WA v, isLatest: '', Returned)] @
        [(MakeInMemoryStore, Returned),
         (MakeCacheableSignalKeyStore, Returned),
         (ConfigGet ''telegram.enabled'', Returned),
         (MakeWASocket, Returned),
         (StoreBind (length (trace s) + 9), Returned),
         (EvProcess (length (trace s) + 9), Returned),
         (Logger LInfo ''WhatsApp connection started'', Returned)]"
      by (simp add: eq)
    then have "\<exists>pre. trace (snd (startConnection env s)) =
        trace s @ pre @
        [(MakeInMemoryStore, Returned),
         (MakeCacheableSignalKeyStore, Returned),
         (ConfigGet ''telegram.enabled'', Returned),
         (MakeWASocket, Returned),
         (StoreBind (length (trace s) + 9), Returned),
         (EvProcess (length (trace s) + 9), Returned),
         (Logger LInfo ''WhatsApp connection started'', Returned)]"
      by blast
    moreover have "sock (snd (startConnection env s)) = Some (length (trace s) + 9)"
      by (simp add: eq)
    ultimately show ?thesis
      using startConnection_returns_made [OF ok] by blast
  qed
  have reconnect:
    "((storesMade (trace (snd (handleConnectionUpdate env u s))) = storesMade (trace s) \<and>
        store (snd (handleConnectionUpdate env u s)) = store s) \<or>
       (storesMade (trace (snd (handleConnectionUpdate env u s))) =
          Suc (storesMade (trace s)) \<and>
        store (snd (handleConnectionUpdate env u s)) = Some makeInMemoryStore \<and>
        (\<forall>key. getMessage (snd (handleConnectionUpdate env u s)) key =
           (if remoteJid key \<in> set objectPrototypeMembers then Inl TypeError
            else Inr None)) \<and>
        (\<forall>j. getContactInfo (snd (handleConnectionUpdate env u s)) j =
           (if j = [] then Null
            else if j \<in> set objectPrototypeMembers then Val (Inherited j)
            else Undefined)))) \<and>
      (fst (handleConnectionUpdate env u s) = Inr () \<longrightarrow>
         storesMade (trace (snd (handleConnectionUpdate env u s))) =
           Suc (storesMade (trace s)))"
    if h: "connection u = Some Close \<and> shouldReconnect env u \<and>
      fst (onQr env u s) = Inr () \<and> retryCount s < maxRetries s"
  proof -
    from h reconnect_is_start [of u env s]
    obtain s2 where s2: "handleConnectionUpdate env u s = startConnection env s2"
      "store s2 = store s" "storesMade (trace s2) = storesMade (trace s)"
      by blast
    from start [of s2] startConnection_returns_made [of env s2] show ?thesis
      unfolding s2 by blast
  qed
  from start [of s] returns reconnect show ?thesis by blast
qed

lemma reconnect_env0:
  "fst (handleConnectionUpdate env0 (closeOf None) cached) = Inr ()"
proof -
  have c: "connection (closeOf None) = Some Close" "shouldReconnect env0 (closeOf None)"
    "retryCount cached < maxRetries cached"
    by (simp_all add: closeOf_def shouldReconnect_def disconnectError_def cached_def ready_obs)
  have q: "onQr env0 (closeOf None) cached = (Inr (), cached)"
    by (simp add: onQr_absent closeOf_def truthy_def)
  show ?thesis
    by (simp add: handleConnectionUpdate_close [OF c(1)] q onClose_retry [OF c]
        startConnection_env0)
qed

theorem C10_store_replaced_when_reached_witness:
  "getMessage cached \<lparr>remoteJid = ''a@s.whatsapp.net'', msgId = ''M1''\<rparr> =
     Inr (Some ''hello'') \<and>
   getContactInfo cached ''a@s.whatsapp.net'' = Val (Own ''Ann'') \<and>
   fst (startConnection env0 cached) = Inr () \<and>
   getMessage (snd (startConnection env0 cached))
     \<lparr>remoteJid = ''a@s.whatsapp.net'', msgId = ''M1''\<rparr> = Inr None \<and>
   connection (closeOf None) = Some Close \<and> shouldReconnect env0 (closeOf None) \<and>
   fst (onQr env0 (closeOf None) cached) = Inr () \<and> retryCount cached < maxRetries cached \<and>
   fst (handleConnectionUpdate env0 (closeOf None) cached) = Inr () \<and>
   getContactInfo (snd (handleConnectionUpdate env0 (closeOf None) cached))
     ''a@s.whatsapp.net'' = Undefined \<and>
   getContactInfo (snd (handleConnectionUpdate env0 (closeOf None) cached))
     ''constructor'' = Val (Inherited ''constructor'')"
proof -
  have before: "getMessage cached \<lparr>remoteJid = ''a@s.whatsapp.net'', msgId = ''M1''\<rparr> =
      Inr (Some ''hello'')" "getContactInfo cached ''a@s.whatsapp.net'' = Val (Own ''Ann'')"
    by (simp_all add: cached_def getMessage_def getContactInfo_def loadMessage_def
        readProperty_def truthy_def)
  have hyps: "connection (closeOf None) = Some Close" "shouldReconnect env0 (closeOf None)"
    "fst (onQr env0 (closeOf None) cached) = Inr ()" "retryCount cached < maxRetries cached"
    by (simp_all add: closeOf_def shouldReconnect_def disconnectError_def onQr_absent
        truthy_def cached_def ready_obs)
  have names: "''a@s.whatsapp.net'' \<notin> set objectPrototypeMembers"
    "''constructor'' \<in> set objectPrototypeMembers"
    by (simp_all add: objectPrototypeMembers_def)
  from C10_store_replaced_when_reached [of env0 cached "closeOf None"]
    startConnection_env0 [of cached] reconnect_env0 hyps
  have "(\<forall>key. getMessage (snd (startConnection env0 cached)) key =
        (if remoteJid key \<in> set objectPrototypeMembers then Inl TypeError else Inr None)) \<and>
    (\<forall>j. getContactInfo (snd (handleConnectionUpdate env0 (closeOf None) cached)) j =
        (if j = [] then Null
         else if j \<in> set objectPrototypeMembers then Val (Inherited j) else Undefined))"
    by auto
  with names have "getMessage (snd (startConnection env0 cached))
      \<lparr>remoteJid = ''a@s.whatsapp.net'', msgId = ''M1''\<rparr> = Inr None \<and>
    getContactInfo (snd (handleConnectionUpdate env0 (closeOf None) cached))
      ''a@s.whatsapp.net'' = Undefined \<and>
    getContactInfo (snd (handleConnectionUpdate env0 (closeOf None) cached))
      ''constructor'' = Val (Inherited ''constructor'')"
    by simp
  with before hyps startConnection_env0 [of cached] reconnect_env0 show ?thesis
    by simp
qed

text \<open>
  A reconnect in which loading the authentication state throws: it is a connection
  attempt, and the message and the contact cached before it are still found after it.
\<close>

lemma block_perform: "block (perform c # ms) s = block ms (record_call c Returned s)"
  by (simp add: thenAct_def bindAct_def perform_def)

lemma startConnection_envAuth:
  "startConnection envAuth s =
     (Inl (Raised (UseMultiFileAuthState ''auth_info'')),
      s\<lparr>trace := trace s @
        [(ConfigGet ''auth.useMongoAuth'', Returned),
         (ConfigGet ''auth.clearAuthOnStart'', Returned),
         (Logger LInfo ''Using file-based authentication state'', Returned),
         (UseMultiFileAuthState ''auth_info'', Thrown),
         (Logger LError ''Failed to start connection:'', Returned)]\<rparr>)"
  by (simp add: startConnection_def tryCatch_def block_steps block_perform envAuth_def
      env0_def record_call_def thenAct_def bindAct_def logger_def perform_def throw_def
      del: block.simps)

lemma reconnect_envAuth:
  "handleConnectionUpdate envAuth (closeOf None) cached =
     (Inl (Raised (UseMultiFileAuthState ''auth_info'')),
      cached\<lparr>retryCount := 1, trace := trace cached @
        [(Logger LInfo ''Connection closed due to , reconnecting: '', Returned),
         (Logger LInfo ''Reconnecting in  seconds (attempt /)...'', Returned),
         (Delay 2000, Returned),
         (ConfigGet ''auth.useMongoAuth'', Returned),
         (ConfigGet ''auth.clearAuthOnStart'', Returned),
         (Logger LInfo ''Using file-based authentication state'', Returned),
         (UseMultiFileAuthState ''auth_info'', Thrown),
         (Logger LError ''Failed to start connection:'', Returned)]\<rparr>)"
proof -
  have c: "connection (closeOf None) = Some Close" "shouldReconnect envAuth (closeOf None)"
    "retryCount cached < maxRetries cached"
    by (simp_all add: closeOf_def shouldReconnect_def disconnectError_def cached_def ready_obs)
  have q: "onQr envAuth (closeOf None) cached = (Inr (), cached)"
    by (simp add: onQr_absent closeOf_def truthy_def)
  have r: "retryCount cached = 0" by (simp add: cached_def ready_obs)
  show ?thesis
    by (simp add: handleConnectionUpdate_close [OF c(1)] q onClose_retry [OF c]
        startConnection_envAuth r retryDelay_def)
qed

theorem C10_failed_reconnect_counterexample:
  "fst (handleConnectionUpdate envAuth (closeOf None) cached) =
     Inl (Raised (UseMultiFileAuthState ''auth_info'')) \<and>
   attempts (trace (snd (handleConnectionUpdate envAuth (closeOf None) cached))) =
     Suc (attempts (trace cached)) \<and>
   getMessage (snd (handleConnectionUpdate envAuth (closeOf None) cached))
     \<lparr>remoteJid = ''a@s.whatsapp.net'', msgId = ''M1''\<rparr> = Inr (Some ''hello'') \<and>
   getContactInfo (snd (handleConnectionUpdate envAuth (closeOf None) cached))
     ''a@s.whatsapp.net'' = Val (Own ''Ann'')"
  unfolding reconnect_envAuth
  by (simp add: obs_defs getMessage_def getContactInfo_def loadMessage_def readProperty_def
      truthy_def cached_def)

end
